theory Spec2Isabelle
  imports Complex_Main "HOL-Library.Word" "HOL-Library.Sublist"
begin

text \<open>
  A model of the EPUB chapter extractor \<open>EpubExtractor\<close>: the path resolver, the container
  locator, the package parser, the navigation (NCX) resolver, the title fallback and the
  query methods.  The model follows \<^verbatim>\<open>EpubExtractor1.2.js\<close>; where
  \<^verbatim>\<open>EpubExtractor.js\<close> or the compact class of \<^verbatim>\<open>unnamed/part_000\<close> differ in
  a method, that method is modelled beside it under a name of its own.  The zip reader and
  the XML/HTML parser are collaborators: an archive is seen through \<open>zip.file\<close>, a parsed
  document is a tree.
\<close>

section \<open>JavaScript strings\<close>

text \<open>
  A JavaScript string is a sequence of UTF-16 code units; \<open>length\<close> counts code units and
  \<open>===\<close> compares them one by one.  ASCII literals of the source are written
  \<open>js ''...''\<close>.
\<close>

type_synonym jsstring = "16 word list"

definition js :: "string \<Rightarrow> jsstring" where
  "js cs = map of_char cs"

abbreviation SLASH :: "16 word" where
  "SLASH \<equiv> 0x2F"

abbreviation SPACE :: "16 word" where
  "SPACE \<equiv> 0x20"

text \<open>
  Truthiness of a value that is \<open>null\<close> or a string: \<open>null\<close> and \<open>''\<close> are falsy.
\<close>

fun truthy :: "jsstring option \<Rightarrow> bool" where
  "truthy None = False"
| "truthy (Some str) = (str \<noteq> [])"

text \<open>\<open>str.startsWith(c)\<close> for a one-unit search string.\<close>

fun startsWith :: "jsstring \<Rightarrow> 16 word \<Rightarrow> bool" where
  "startsWith [] c = False"
| "startsWith (d # ds) c = (d = c)"

text \<open>
  \<open>str.split(sep)\<close> for a one-unit separator: \<open>n\<close> separators give \<open>n + 1\<close> pieces, empty
  ones included (\<open>''.split('/')\<close> is \<open>['']\<close>).  The accumulator holds the current piece
  reversed.
\<close>

fun split_acc :: "16 word \<Rightarrow> jsstring \<Rightarrow> jsstring \<Rightarrow> jsstring list" where
  "split_acc sep acc [] = [rev acc]"
| "split_acc sep acc (c # cs) =
     (if c = sep then rev acc # split_acc sep [] cs else split_acc sep (c # acc) cs)"

definition js_split :: "jsstring \<Rightarrow> 16 word \<Rightarrow> jsstring list" where
  "js_split str sep = split_acc sep [] str"

text \<open>\<open>parts.join(sep)\<close>.\<close>

fun js_join :: "jsstring list \<Rightarrow> 16 word \<Rightarrow> jsstring" where
  "js_join [] sep = []"
| "js_join [p] sep = p"
| "js_join (p # q # ps) sep = p @ sep # js_join (q # ps) sep"

text \<open>\<open>str.split('/').filter(part => part)\<close>: the non-empty pieces.\<close>

definition pathParts :: "jsstring \<Rightarrow> jsstring list" where
  "pathParts str = filter (\<lambda>part. part \<noteq> []) (js_split str SLASH)"

text \<open>
  \<open>str.lastIndexOf(c)\<close>: the last index holding \<open>c\<close>, or \<open>-1\<close>.  The scan keeps the
  current index and the last hit.
\<close>

fun lastIndexFrom :: "nat \<Rightarrow> int \<Rightarrow> jsstring \<Rightarrow> 16 word \<Rightarrow> int" where
  "lastIndexFrom i found [] c = found"
| "lastIndexFrom i found (d # ds) c = lastIndexFrom (i + 1) (if d = c then int i else found) ds c"

definition lastIndexOf :: "jsstring \<Rightarrow> 16 word \<Rightarrow> int" where
  "lastIndexOf str c = lastIndexFrom 0 (- 1) str c"

text \<open>
  The set matched by \<open>\s\<close> in a regular expression, which is also what \<open>trim()\<close> strips:
  TAB, LF, VT, FF, CR, SPACE, NBSP, U+1680, U+2000..U+200A, U+2028, U+2029, U+202F, U+205F,
  U+3000 and U+FEFF.
\<close>

definition is_space :: "16 word \<Rightarrow> bool" where
  "is_space c =
     (c \<in> {0x09, 0x0A, 0x0B, 0x0C, 0x0D, 0x20, 0xA0, 0x1680, 0x2028, 0x2029, 0x202F,
            0x205F, 0x3000, 0xFEFF}
      \<or> (0x2000 \<le> c \<and> c \<le> 0x200A))"

text \<open>
  \<open>str.replace(/\s+/g, ' ')\<close>: every maximal run of white space becomes one space.  The flag
  says whether the scan is inside a run whose space has been written already.
\<close>

fun collapse_from :: "bool \<Rightarrow> jsstring \<Rightarrow> jsstring" where
  "collapse_from inRun [] = []"
| "collapse_from inRun (c # cs) =
     (if is_space c then
        (if inRun then collapse_from True cs else SPACE # collapse_from True cs)
      else c # collapse_from False cs)"

definition collapseSpaces :: "jsstring \<Rightarrow> jsstring" where
  "collapseSpaces str = collapse_from False str"

definition trim :: "jsstring \<Rightarrow> jsstring" where
  "trim str = rev (dropWhile is_space (rev (dropWhile is_space str)))"

text \<open>\<open>text.replace(/\s+/g, ' ').trim()\<close>, the clean-up applied to every title text.\<close>

definition cleanText :: "jsstring \<Rightarrow> jsstring" where
  "cleanText str = trim (collapseSpaces str)"

text \<open>Decimal rendering of a number inside a template literal (\<open>`${index + 1}`\<close>).\<close>

fun decimal :: "nat \<Rightarrow> jsstring" where
  "decimal n =
     (if n < 10 then [of_nat (48 + n)]
      else decimal (n div 10) @ [of_nat (48 + n mod 10)])"

declare decimal.simps [simp del]

section \<open>Path resolver\<close>

text \<open>
  \<open>resolvePath(basePath, relativePath)\<close> of \<^verbatim>\<open>EpubExtractor.js\<close> (the same text in
  \<^verbatim>\<open>EpubExtractor1.2.js\<close>).  The \<open>for\<close> loop over \<open>relativeParts\<close> is the recursion
  \<open>resolveLoop\<close>; \<open>baseParts.pop()\<close> is \<open>butlast\<close> and \<open>baseParts.push(p)\<close> appends.
\<close>

fun resolveLoop :: "jsstring list \<Rightarrow> jsstring list \<Rightarrow> jsstring list" where
  "resolveLoop baseParts [] = baseParts"
| "resolveLoop baseParts (p # relativeParts) =
     (if p = js ''..'' then
        (if length baseParts > 0 then resolveLoop (butlast baseParts) relativeParts
         else resolveLoop baseParts relativeParts)
      else resolveLoop (baseParts @ [p]) relativeParts)"

definition resolvePath :: "jsstring \<Rightarrow> jsstring \<Rightarrow> jsstring" where
  "resolvePath basePath relativePath =
     (if startsWith relativePath SLASH then drop 1 relativePath
      else js_join (resolveLoop (pathParts basePath) (pathParts relativePath)) SLASH)"

text \<open>
  The method \<open>s(b, r)\<close> of the compact \<open>EpubExtractor\<close> (\<^verbatim>\<open>unnamed/part_000\<close>):
  \<^verbatim>\<open>r.split('/').filter(Boolean).forEach(p => p === '..' && bp.length ? bp.pop() : bp.push(p))\<close>.
  The condition of the conditional expression is \<open>p === '..' && bp.length\<close>, so a \<open>'..'\<close>
  met with an empty \<open>bp\<close> takes the \<open>push\<close> branch.
\<close>

fun s_forEach :: "jsstring list \<Rightarrow> jsstring list \<Rightarrow> jsstring list" where
  "s_forEach bp [] = bp"
| "s_forEach bp (p # ps) =
     (if p = js ''..'' \<and> length bp \<noteq> 0 then s_forEach (butlast bp) ps
      else s_forEach (bp @ [p]) ps)"

definition EpubExtractor_s :: "jsstring \<Rightarrow> jsstring \<Rightarrow> jsstring" where
  "EpubExtractor_s b r =
     (if startsWith r SLASH then drop 1 r
      else js_join (s_forEach (pathParts b) (pathParts r)) SLASH)"

text \<open>
  The resolver as the specification words it: one step per reference segment, folded over
  the base segments.
\<close>

definition spec_step :: "jsstring list \<Rightarrow> jsstring \<Rightarrow> jsstring list" where
  "spec_step baseSegs seg =
     (if seg = js ''..'' then (if baseSegs = [] then [] else butlast baseSegs)
      else baseSegs @ [seg])"

section \<open>Parsed documents\<close>

text \<open>
  The XML/HTML parser is an external collaborator.  A parsed document is the tree under its
  document element: an element has a namespace URI, a local name, its attributes in source
  order and its child nodes; a text node has its data.  The code never changes a document.
\<close>

datatype node =
    Element jsstring jsstring "(jsstring \<times> jsstring) list" "node list"
  | Text jsstring

fun getAttribute :: "node \<Rightarrow> jsstring \<Rightarrow> jsstring option" where
  "getAttribute (Element ns name atts kids) a = map_of atts a"
| "getAttribute (Text d) a = None"

fun childNodes :: "node \<Rightarrow> node list" where
  "childNodes (Element ns name atts kids) = kids"
| "childNodes (Text d) = []"

fun textContent :: "node \<Rightarrow> jsstring" where
  "textContent (Text d) = d"
| "textContent (Element ns name atts kids) = concat (map textContent kids)"

text \<open>
  The elements of a document in document order, each with the (namespace, name) pairs of its
  ancestors, nearest first.
\<close>

fun walk :: "(jsstring \<times> jsstring) list \<Rightarrow> node \<Rightarrow> ((jsstring \<times> jsstring) list \<times> node) list" where
  "walk anc (Text d) = []"
| "walk anc (Element ns name atts kids) =
     (anc, Element ns name atts kids) # concat (map (walk ((ns, name) # anc)) kids)"

text \<open>\<open>haystack.includes(needle)\<close>, the substring test behind \<open>[attr*="value"]\<close>.\<close>

fun js_includes :: "jsstring \<Rightarrow> jsstring \<Rightarrow> bool" where
  "js_includes [] needle = (needle = [])"
| "js_includes (c # cs) needle = (take (length needle) (c # cs) = needle \<or> js_includes cs needle)"

text \<open>
  The CSS selectors the code uses: a type selector (\<open>h1\<close>, \<open>rootfile\<close>), an attribute
  substring selector (\<open>[class*="title"]\<close>), a type selector with an attribute value
  (\<open>item[id="ncx"]\<close>) and a descendant combinator of two type selectors
  (\<open>spine itemref\<close>).  A type selector without a namespace prefix matches the local name in
  any namespace.
\<close>

datatype selector =
    TypeSel jsstring
  | AttrContains jsstring jsstring
  | TypeAttrEquals jsstring jsstring jsstring
  | Descendant jsstring jsstring

fun matches :: "selector \<Rightarrow> (jsstring \<times> jsstring) list \<times> node \<Rightarrow> bool" where
  "matches sel (anc, Text d) = False"
| "matches (TypeSel t) (anc, Element ns name atts kids) = (name = t)"
| "matches (AttrContains a v) (anc, Element ns name atts kids) =
     (case map_of atts a of None \<Rightarrow> False | Some w \<Rightarrow> v \<noteq> [] \<and> js_includes w v)"
| "matches (TypeAttrEquals t a v) (anc, Element ns name atts kids) =
     (name = t \<and> map_of atts a = Some v)"
| "matches (Descendant t u) (anc, Element ns name atts kids) =
     (name = u \<and> t \<in> set (map snd anc))"

definition querySelectorAll :: "selector \<Rightarrow> node \<Rightarrow> node list" where
  "querySelectorAll sel doc = map snd (filter (matches sel) (walk [] doc))"

definition querySelector :: "selector \<Rightarrow> node \<Rightarrow> node option" where
  "querySelector sel doc = (case querySelectorAll sel doc of [] \<Rightarrow> None | e # _ \<Rightarrow> Some e)"

text \<open>
  The XPath queries of the NCX reader, with the prefix \<open>ncx\<close> bound to the NCX namespace:
  \<open>//ncx:navMap/ncx:navPoint\<close> from the document (an ordered snapshot),
  \<open>./ncx:navLabel/ncx:text\<close> and \<open>./ncx:content\<close> from a navigation point (first node in
  document order).
\<close>

definition ncxNs :: jsstring where
  "ncxNs = js ''http://www.daisy.org/z3986/2005/ncx/''"

fun isNcx :: "jsstring \<Rightarrow> node \<Rightarrow> bool" where
  "isNcx t (Element ns name atts kids) = (ns = ncxNs \<and> name = t)"
| "isNcx t (Text d) = False"

definition ncxChildren :: "jsstring \<Rightarrow> node \<Rightarrow> node list" where
  "ncxChildren t e = filter (isNcx t) (childNodes e)"

definition firstNode :: "node list \<Rightarrow> node option" where
  "firstNode ns = (case ns of [] \<Rightarrow> None | e # _ \<Rightarrow> Some e)"

definition xpathNavPoints :: "node \<Rightarrow> node list" where
  "xpathNavPoints doc =
     map snd (filter (\<lambda>(anc, e). isNcx (js ''navPoint'') e \<and>
                        (case anc of [] \<Rightarrow> False | parent # _ \<Rightarrow> parent = (ncxNs, js ''navMap'')))
                (walk [] doc))"

definition xpathLabelText :: "node \<Rightarrow> node option" where
  "xpathLabelText navPoint =
     firstNode (concat (map (ncxChildren (js ''text'')) (ncxChildren (js ''navLabel'') navPoint)))"

definition xpathContent :: "node \<Rightarrow> node option" where
  "xpathContent navPoint = firstNode (ncxChildren (js ''content'') navPoint)"

section \<open>Archive and extractor state\<close>

datatype error =
    ArchiveOpenError
  | NoContentOpf
  | ContentOpfFileMissing
  | NotInitialized
  | InvalidChapterIndex int
  | ChapterFileNotFound jsstring
  | TypeError
  | SyntaxError
  | ReadError

text \<open>
  The errors of the source: a failure to load or open the zip file; \<open>new Error\<close> with the
  messages "content.opf not found, maybe not a valid EPUB" (\<open>init\<close>), "cannot find the
  content.opf file" (\<open>parseContentOpf\<close>), "call init() first", "invalid chapter index, the
  valid range is 0 to <length - 1>" and "cannot find the chapter file: <path>"; the
  \<open>TypeError\<close> of a method call on \<open>null\<close>; the \<open>SyntaxError\<close> of \<open>querySelector\<close>; a
  rejected read of an archive entry.

  An archive entry is seen through the reads the code makes of it: its bytes
  (\<open>async('arraybuffer')\<close>, \<open>None\<close> when the read is rejected), and its text parsed as XML or
  as HTML (\<open>async('text')\<close> followed by \<open>DOMParser.parseFromString\<close>), which may throw.
  The field \<open>otherItem\<close> belongs to the selector engine and is explained with \<open>itemById\<close>.
  The archive is \<open>zip.file(path)\<close>: the entry at a path, or \<open>null\<close>.
\<close>

record entry =
  arraybuffer :: "8 word list option"
  xml :: "error + node"
  html :: "error + node"
  otherItem :: "jsstring \<Rightarrow> error + node option"

type_synonym archive = "jsstring \<Rightarrow> entry option"

record chapterInfo =
  chapter_id :: "jsstring option"
  path :: jsstring
  src :: jsstring
  title :: jsstring

text \<open>
  The fields of an \<open>EpubExtractor\<close> (\<^verbatim>\<open>EpubExtractor1.2.js\<close>).  \<open>epubFile\<close> stands for the
  file given to the constructor, seen through what loading JSZip, reading the file and
  \<open>JSZip.loadAsync\<close> make of it: an archive or an error.  \<open>zipfile\<close> is the field \<open>zip\<close>.
  The constructor is called with a file (it throws without one).
\<close>

record extractor =
  epubFile :: "error + archive"
  zipfile :: "archive option"
  contentOpfPath :: "jsstring option"
  ncxPath :: "jsstring option"
  chapters :: "chapterInfo list"
  initialized :: bool

definition new_EpubExtractor :: "error + archive \<Rightarrow> extractor" where
  "new_EpubExtractor f =
     \<lparr>epubFile = f, zipfile = None, contentOpfPath = None, ncxPath = None,
      chapters = [], initialized = False\<rparr>"

record blob =
  blobParts :: "8 word list list"
  blobType :: jsstring

text \<open>A \<open>null\<close> or a string inside a template literal or a string concatenation.\<close>

fun toString :: "jsstring option \<Rightarrow> jsstring" where
  "toString None = js ''null''"
| "toString (Some str) = str"

text \<open>The default title \<open>`\<dots>${index + 1}`\<close>; the prefix is U+7AE0 U+8282.\<close>

definition defaultTitle :: "nat \<Rightarrow> jsstring" where
  "defaultTitle index = [0x7AE0, 0x8282] @ decimal (index + 1)"

section \<open>Container locator\<close>

definition possiblePaths :: "jsstring list" where
  "possiblePaths = [js ''OEBPS/content.opf'', js ''content.opf'', js ''EPUB/content.opf'']"

text \<open>The loop \<open>for (const path of possiblePaths) { if (this.zip.file(path)) return path; }\<close>.\<close>

fun probePaths :: "archive \<Rightarrow> jsstring list \<Rightarrow> jsstring option" where
  "probePaths z [] = None"
| "probePaths z (p # ps) = (if z p \<noteq> None then Some p else probePaths z ps)"

text \<open>
  \<open>findContentOpf\<close> (the same in every variant; \<open>fO\<close> of the compact one ends with
  \<open>O.find(p => this.z.file(p)) || null\<close>).
\<close>

definition findContentOpf :: "archive \<Rightarrow> error + jsstring option" where
  "findContentOpf z =
     (case z (js ''META-INF/container.xml'') of
        None \<Rightarrow> Inr (probePaths z possiblePaths)
      | Some containerFile \<Rightarrow>
          (case xml containerFile of
             Inl e \<Rightarrow> Inl e
           | Inr xmlDoc \<Rightarrow>
               (case querySelector (TypeSel (js ''rootfile'')) xmlDoc of
                  Some rootfile \<Rightarrow> Inr (getAttribute rootfile (js ''full-path''))
                | None \<Rightarrow> Inr (probePaths z possiblePaths))))"

section \<open>Package parser\<close>

text \<open>
  \<open>parseContentOpf\<close> of \<^verbatim>\<open>EpubExtractor1.2.js\<close>.  A method returns the error it throws,
  if any, and the object as it leaves it.

  The directory of the package document:
  \<open>p.lastIndexOf('/') > -1 ? p.substring(0, p.lastIndexOf('/') + 1) : ''\<close>.
\<close>

definition opfDirectory :: "jsstring \<Rightarrow> jsstring" where
  "opfDirectory p =
     (if lastIndexOf p SLASH > - 1 then take (nat (lastIndexOf p SLASH + 1)) p else [])"

text \<open>
  The selector \<open>`item[id="${idRef}"]`\<close> is built by pasting \<open>idRef\<close> between quotation
  marks.  For an \<open>idRef\<close> free of quotation marks, backslashes, line breaks, NUL and
  surrogates the text is the selector of the \<open>item\<close> elements whose \<open>id\<close> is \<open>idRef\<close>.  Any
  other \<open>idRef\<close> gives a text that the selector engine reads by rules of its own (a
  backslash starts an escape, a quotation mark ends the string and what follows is read as
  more selector text, a line break makes the text no selector).  What \<open>querySelector\<close>
  answers then (an element, \<open>null\<close> or a \<open>SyntaxError\<close>) is not fixed by the model: it is
  the field \<open>otherItem\<close> of the entry the document comes from, applied to \<open>idRef\<close>.
\<close>

definition cssPlain :: "jsstring \<Rightarrow> bool" where
  "cssPlain v =
     list_all (\<lambda>c. c \<notin> {0x00, 0x22, 0x5C, 0x0A, 0x0C, 0x0D} \<and> (c < 0xD800 \<or> 0xDFFF < c)) v"

definition itemById :: "node \<Rightarrow> (jsstring \<Rightarrow> error + node option) \<Rightarrow> jsstring option \<Rightarrow> error + node option" where
  "itemById xmlDoc other idRef =
     (if cssPlain (toString idRef)
      then Inr (querySelector (TypeAttrEquals (js ''item'') (js ''id'') (toString idRef)) xmlDoc)
      else other (toString idRef))"

text \<open>\<open>Array.from(xmlDoc.querySelectorAll('spine itemref')).map(item => item.getAttribute('idref'))\<close>\<close>

definition spineIdRefs :: "node \<Rightarrow> jsstring option list" where
  "spineIdRefs xmlDoc =
     map (\<lambda>item. getAttribute item (js ''idref''))
         (querySelectorAll (Descendant (js ''spine'') (js ''itemref'')) xmlDoc)"

text \<open>
  The callback of \<open>idRefs.map((idRef, index) => ...)\<close>: \<open>null\<close> when no item matches; a
  \<open>TypeError\<close> from \<open>resolvePath\<close> when the item has no \<open>href\<close> (\<open>null.startsWith\<close>).
\<close>

definition spineEntry :: "node \<Rightarrow> (jsstring \<Rightarrow> error + node option) \<Rightarrow> jsstring \<Rightarrow> jsstring option \<Rightarrow> nat \<Rightarrow> error + chapterInfo option" where
  "spineEntry xmlDoc other opfDir idRef index =
     (case itemById xmlDoc other idRef of
        Inl e \<Rightarrow> Inl e
      | Inr None \<Rightarrow> Inr None
      | Inr (Some item) \<Rightarrow>
          (case getAttribute item (js ''href'') of
             None \<Rightarrow> Inl TypeError
           | Some href \<Rightarrow>
               Inr (Some \<lparr>chapter_id = idRef, path = resolvePath opfDir href, src = href,
                          title = defaultTitle index\<rparr>)))"

text \<open>\<open>xs.map((x, index) => f(x, index))\<close> with a callback that may throw.\<close>

fun mapIndexed :: "('a \<Rightarrow> nat \<Rightarrow> error + 'b) \<Rightarrow> nat \<Rightarrow> 'a list \<Rightarrow> error + 'b list" where
  "mapIndexed f index [] = Inr []"
| "mapIndexed f index (x # xs) =
     (case f x index of
        Inl e \<Rightarrow> Inl e
      | Inr y \<Rightarrow>
          (case mapIndexed f (index + 1) xs of
             Inl e \<Rightarrow> Inl e
           | Inr ys \<Rightarrow> Inr (y # ys)))"

text \<open>\<open>xs.filter(Boolean)\<close> on an array of objects and \<open>null\<close>s.\<close>

definition filterBoolean :: "'a option list \<Rightarrow> 'a list" where
  "filterBoolean xs = map the (filter (\<lambda>x. x \<noteq> None) xs)"

definition parseContentOpf :: "extractor \<Rightarrow> error option \<times> extractor" where
  "parseContentOpf this =
     (case zipfile this of
        None \<Rightarrow> (Some TypeError, this)
      | Some z \<Rightarrow>
     (case z (toString (contentOpfPath this)) of
        None \<Rightarrow> (Some ContentOpfFileMissing, this)
      | Some contentOpfFile \<Rightarrow>
     (case xml contentOpfFile of
        Inl e \<Rightarrow> (Some e, this)
      | Inr xmlDoc \<Rightarrow>
     (case contentOpfPath this of
        None \<Rightarrow> (Some TypeError, this)
      | Some p \<Rightarrow>
     (case (case querySelector (TypeAttrEquals (js ''item'') (js ''id'') (js ''ncx'')) xmlDoc of
              None \<Rightarrow> Inr this
            | Some ncxItem \<Rightarrow>
                (case getAttribute ncxItem (js ''href'') of
                   None \<Rightarrow> Inl TypeError
                 | Some href \<Rightarrow> Inr (this\<lparr>ncxPath := Some (resolvePath (opfDirectory p) href)\<rparr>))) of
        Inl e \<Rightarrow> (Some e, this)
      | Inr this1 \<Rightarrow>
     (case mapIndexed (spineEntry xmlDoc (otherItem contentOpfFile) (opfDirectory p)) 0
             (spineIdRefs xmlDoc) of
        Inl e \<Rightarrow> (Some e, this1)
      | Inr cs \<Rightarrow> (None, this1\<lparr>chapters := filterBoolean cs\<rparr>)))))))"

section \<open>Navigation resolver\<close>

text \<open>
  \<open>parseNcx\<close> of \<^verbatim>\<open>EpubExtractor1.2.js\<close>.  The loop over the snapshot collects the pairs
  \<open>{src, title}\<close> of the navigation points whose title and src are both truthy.
\<close>

definition navPointTitle :: "node \<Rightarrow> jsstring option" where
  "navPointTitle navPoint =
     (case xpathLabelText navPoint of
        Some textNode \<Rightarrow> Some (cleanText (textContent textNode))
      | None \<Rightarrow> None)"

definition navPointSrc :: "node \<Rightarrow> jsstring option" where
  "navPointSrc navPoint =
     (case xpathContent navPoint of
        Some contentNode \<Rightarrow> getAttribute contentNode (js ''src'')
      | None \<Rightarrow> None)"

fun navPointLoop :: "node list \<Rightarrow> (jsstring \<times> jsstring) list" where
  "navPointLoop [] = []"
| "navPointLoop (navPoint # rest) =
     (if truthy (navPointTitle navPoint) \<and> truthy (navPointSrc navPoint)
      then (toString (navPointSrc navPoint), toString (navPointTitle navPoint)) # navPointLoop rest
      else navPointLoop rest)"

text \<open>
  The callback of \<open>this.chapters.forEach\<close>:
  \<open>navPoints.find(nav => nav.src === chapter.src)\<close>, and the title of the match, if any.
\<close>

definition matchNav :: "(jsstring \<times> jsstring) list \<Rightarrow> chapterInfo \<Rightarrow> chapterInfo" where
  "matchNav navPoints ch =
     (case find (\<lambda>nav. fst nav = src ch) navPoints of
        Some matchedNav \<Rightarrow> ch\<lparr>title := snd matchedNav\<rparr>
      | None \<Rightarrow> ch)"

text \<open>The body of the \<open>try\<close> block: what it throws, or the object it leaves.\<close>

definition parseNcx_try :: "extractor \<Rightarrow> entry \<Rightarrow> error + extractor" where
  "parseNcx_try this ncxFile =
     (case xml ncxFile of
        Inl e \<Rightarrow> Inl e
      | Inr xmlDoc \<Rightarrow>
          Inr (this\<lparr>chapters := map (matchNav (navPointLoop (xpathNavPoints xmlDoc))) (chapters this)\<rparr>))"

definition parseNcx :: "extractor \<Rightarrow> error option \<times> extractor" where
  "parseNcx this =
     (case ncxPath this of
        None \<Rightarrow> (None, this)
      | Some p \<Rightarrow>
          if p = [] then (None, this)
          else (case zipfile this of
                  None \<Rightarrow> (Some TypeError, this)
                | Some z \<Rightarrow>
                    (case z p of
                       None \<Rightarrow> (None, this)
                     | Some ncxFile \<Rightarrow>
                         (case parseNcx_try this ncxFile of
                            Inl e \<Rightarrow> (None, this)
                          | Inr this1 \<Rightarrow> (None, this1)))))"

text \<open>
  The same step inside \<open>p()\<close> of the compact \<open>EpubExtractor\<close>
  (\<^verbatim>\<open>unnamed/part_000\<close>): the titles go into an object \<open>m\<close> under the key \<open>s\<close>
  (\<open>if (tn && sn) { ...; if (t) m[s] = t; }\<close>, a \<open>null\<close> key being the property name
  \<open>'null'\<close>), and every chapter takes \<open>m[ch.s] || ch.t\<close>.  \<open>m\<close> is modelled by its own
  properties; the members every object inherits (\<open>constructor\<close> and the like) are left out,
  so the model is of documents in which no href and no src is one of those names.
\<close>

fun p_navLoop :: "node list \<Rightarrow> (jsstring \<rightharpoonup> jsstring) \<Rightarrow> (jsstring \<rightharpoonup> jsstring)" where
  "p_navLoop [] m = m"
| "p_navLoop (navPoint # rest) m =
     (case xpathLabelText navPoint of
        None \<Rightarrow> p_navLoop rest m
      | Some tn \<Rightarrow>
          (case xpathContent navPoint of
             None \<Rightarrow> p_navLoop rest m
           | Some sn \<Rightarrow>
               (if cleanText (textContent tn) \<noteq> []
                then p_navLoop rest (m(toString (getAttribute sn (js ''src'')) \<mapsto> cleanText (textContent tn)))
                else p_navLoop rest m)))"

definition p_title :: "(jsstring \<rightharpoonup> jsstring) \<Rightarrow> chapterInfo \<Rightarrow> chapterInfo" where
  "p_title m ch = (if truthy (m (src ch)) then ch\<lparr>title := toString (m (src ch))\<rparr> else ch)"

definition p_navTitles :: "node \<Rightarrow> chapterInfo list \<Rightarrow> chapterInfo list" where
  "p_navTitles nx c = map (p_title (p_navLoop (xpathNavPoints nx) Map.empty)) c"

section \<open>Title fallback\<close>

definition titleSelectors :: "selector list" where
  "titleSelectors =
     [TypeSel (js ''h1''), TypeSel (js ''h2''), AttrContains (js ''class'') (js ''title''),
      AttrContains (js ''class'') (js ''Title''), TypeSel (js ''h3'')]"

text \<open>
  \<open>extractTitleFromXhtml\<close> of \<^verbatim>\<open>EpubExtractor1.2.js\<close>, on the parsed document: the
  \<open>return\<close> inside \<open>if (element)\<close> ends the loop at the first selector that matches.
\<close>

fun extractLoop :: "selector list \<Rightarrow> node \<Rightarrow> jsstring option" where
  "extractLoop [] doc = None"
| "extractLoop (selector # rest) doc =
     (case querySelector selector doc of
        Some element \<Rightarrow>
          (if length (cleanText (textContent element)) > 1
           then Some (cleanText (textContent element)) else None)
      | None \<Rightarrow> extractLoop rest doc)"

definition extractTitleFromXhtml :: "node \<Rightarrow> jsstring option" where
  "extractTitleFromXhtml doc = extractLoop titleSelectors doc"

text \<open>
  The loop of \<open>t()\<close> of the compact \<open>EpubExtractor\<close> (\<^verbatim>\<open>unnamed/part_000\<close>), with
  \<open>L = 2\<close>: \<open>if (t.length >= L) { ch.t = t; break; }\<close>, and otherwise the next selector.
  The result is the title assigned, if any.
\<close>

fun t_loop :: "selector list \<Rightarrow> node \<Rightarrow> jsstring option" where
  "t_loop [] d = None"
| "t_loop (s # rest) d =
     (case querySelector s d of
        Some e \<Rightarrow>
          (if length (cleanText (textContent e)) \<ge> 2
           then Some (cleanText (textContent e)) else t_loop rest d)
      | None \<Rightarrow> t_loop rest d)"

text \<open>
  The callback of \<open>this.chapters.map(async (chapter, index) => ...)\<close> in
  \<open>preloadChapterTitles\<close>.  The body of its \<open>try\<close> block gives the chapter it leaves or the
  error it throws (a \<open>TypeError\<close> for \<open>null.async\<close> when the archive has no entry at the
  path); the \<open>catch\<close> only logs.  The callback returns the paths it asks the archive for,
  and the chapter.
\<close>

definition preloadChapter_try :: "archive option \<Rightarrow> chapterInfo \<Rightarrow> error + chapterInfo" where
  "preloadChapter_try zf ch =
     (case zf of
        None \<Rightarrow> Inl TypeError
      | Some z \<Rightarrow>
          (case z (path ch) of
             None \<Rightarrow> Inl TypeError
           | Some f \<Rightarrow>
               (case html f of
                  Inl e \<Rightarrow> Inl e
                | Inr doc \<Rightarrow>
                    Inr (if truthy (extractTitleFromXhtml doc)
                         then ch\<lparr>title := toString (extractTitleFromXhtml doc)\<rparr>
                         else ch))))"

definition preloadChapter :: "archive option \<Rightarrow> chapterInfo \<Rightarrow> nat \<Rightarrow> jsstring list \<times> chapterInfo" where
  "preloadChapter zf ch index =
     (if title ch \<noteq> defaultTitle index then ([], ch)
      else ((case zf of None \<Rightarrow> [] | Some z \<Rightarrow> [path ch]),
            (case preloadChapter_try zf ch of Inl e \<Rightarrow> ch | Inr ch1 \<Rightarrow> ch1)))"

text \<open>
  \<open>preloadChapterTitles\<close>: every callback runs up to its read in the order of the chapters
  and writes its own chapter only.
\<close>

fun preloadFrom :: "archive option \<Rightarrow> nat \<Rightarrow> chapterInfo list \<Rightarrow> (jsstring list \<times> chapterInfo) list" where
  "preloadFrom zf index [] = []"
| "preloadFrom zf index (ch # rest) = preloadChapter zf ch index # preloadFrom zf (index + 1) rest"

definition preloadChapterTitles :: "extractor \<Rightarrow> jsstring list \<times> extractor" where
  "preloadChapterTitles this =
     (concat (map fst (preloadFrom (zipfile this) 0 (chapters this))),
      this\<lparr>chapters := map snd (preloadFrom (zipfile this) 0 (chapters this))\<rparr>)"

section \<open>Facade\<close>

text \<open>\<open>init\<close> of \<^verbatim>\<open>EpubExtractor1.2.js\<close>; its \<open>catch\<close> logs and throws the error again.\<close>

definition init :: "extractor \<Rightarrow> error option \<times> extractor" where
  "init this =
     (if initialized this then (None, this)
      else (case epubFile this of
              Inl e \<Rightarrow> (Some e, this)
            | Inr z \<Rightarrow>
      (case findContentOpf z of
         Inl e \<Rightarrow> (Some e, this\<lparr>zipfile := Some z\<rparr>)
       | Inr p \<Rightarrow>
           if \<not> truthy p
           then (Some NoContentOpf, this\<lparr>zipfile := Some z, contentOpfPath := p\<rparr>)
           else (case parseContentOpf (this\<lparr>zipfile := Some z, contentOpfPath := p\<rparr>) of
                   (Some e, this1) \<Rightarrow> (Some e, this1)
                 | (None, this1) \<Rightarrow>
           (case (if truthy (ncxPath this1) then parseNcx this1 else (None, this1)) of
              (Some e, this2) \<Rightarrow> (Some e, this2)
            | (None, this2) \<Rightarrow>
                (None, (snd (preloadChapterTitles this2))\<lparr>initialized := True\<rparr>))))))"

text \<open>
  A chapter index is a JavaScript number: not-a-number, an infinity or a finite value (every
  finite double is a rational).  The three uses the queries make of it are the comparisons
  \<open>chapterIndex < 0\<close> and \<open>chapterIndex >= this.chapters.length\<close>, both false for
  not-a-number, and the array read \<open>this.chapters[chapterIndex]\<close>, which is \<open>undefined\<close>
  unless the number is an integer within the array.
\<close>

datatype number = NaN | PosInfinity | NegInfinity | Finite rat

fun belowZero :: "number \<Rightarrow> bool" where
  "belowZero NaN = False"
| "belowZero PosInfinity = False"
| "belowZero NegInfinity = True"
| "belowZero (Finite q) = (q < 0)"

fun atLeastLength :: "number \<Rightarrow> 'a list \<Rightarrow> bool" where
  "atLeastLength NaN xs = False"
| "atLeastLength PosInfinity xs = True"
| "atLeastLength NegInfinity xs = False"
| "atLeastLength (Finite q) xs = (of_nat (length xs) \<le> q)"

fun arrayRead :: "'a list \<Rightarrow> number \<Rightarrow> 'a option" where
  "arrayRead xs (Finite q) =
     (if q = of_int \<lfloor>q\<rfloor> \<and> 0 \<le> q \<and> q < of_nat (length xs) then Some (xs ! nat \<lfloor>q\<rfloor>) else None)"
| "arrayRead xs NaN = None"
| "arrayRead xs PosInfinity = None"
| "arrayRead xs NegInfinity = None"

text \<open>
  The queries of \<^verbatim>\<open>EpubExtractor1.2.js\<close>: the value returned or the error thrown, and
  the object afterwards.  Reading \<open>.title\<close> or \<open>.path\<close> of \<open>undefined\<close> is a \<open>TypeError\<close>; a
  rejected \<open>await xhtmlFile.async('arraybuffer')\<close> is thrown on as \<open>ReadError\<close>.
\<close>

definition getChapterCount :: "extractor \<Rightarrow> (error + nat) \<times> extractor" where
  "getChapterCount this =
     (if \<not> initialized this then (Inl NotInitialized, this)
      else (Inr (length (chapters this)), this))"

definition getChapterTitles :: "extractor \<Rightarrow> (error + jsstring list) \<times> extractor" where
  "getChapterTitles this =
     (if \<not> initialized this then (Inl NotInitialized, this)
      else (Inr (map title (chapters this)), this))"

definition getChapterTitle :: "extractor \<Rightarrow> number \<Rightarrow> (error + jsstring) \<times> extractor" where
  "getChapterTitle this chapterIndex =
     (if \<not> initialized this then (Inl NotInitialized, this)
      else if belowZero chapterIndex \<or> atLeastLength chapterIndex (chapters this)
      then (Inl (InvalidChapterIndex (int (length (chapters this)) - 1)), this)
      else (case arrayRead (chapters this) chapterIndex of
              None \<Rightarrow> (Inl TypeError, this)
            | Some ch \<Rightarrow> (Inr (title ch), this)))"

definition getChapterXhtml :: "extractor \<Rightarrow> number \<Rightarrow> (error + blob) \<times> extractor" where
  "getChapterXhtml this chapterIndex =
     (if \<not> initialized this then (Inl NotInitialized, this)
      else if belowZero chapterIndex \<or> atLeastLength chapterIndex (chapters this)
      then (Inl (InvalidChapterIndex (int (length (chapters this)) - 1)), this)
      else (case zipfile this of
              None \<Rightarrow> (Inl TypeError, this)
            | Some z \<Rightarrow>
                (case arrayRead (chapters this) chapterIndex of
                   None \<Rightarrow> (Inl TypeError, this)
                 | Some ch \<Rightarrow>
                     (case z (path ch) of
                        None \<Rightarrow> (Inl (ChapterFileNotFound (path ch)), this)
                      | Some xhtmlFile \<Rightarrow>
                          (case arraybuffer xhtmlFile of
                             None \<Rightarrow> (Inl ReadError, this)
                           | Some content \<Rightarrow>
                               (Inr \<lparr>blobParts = [content],
                                     blobType = js ''application/xhtml+xml''\<rparr>, this))))))"

text \<open>
  \<open>getChapterCount\<close> of \<^verbatim>\<open>EpubExtractor.js\<close>: \<open>return this.chapters.length;\<close> and
  nothing else.
\<close>

definition getChapterCount_v1 :: "extractor \<Rightarrow> (error + nat) \<times> extractor" where
  "getChapterCount_v1 this = (Inr (length (chapters this)), this)"

section \<open>Specification notions and sample inputs\<close>

text \<open>
  A spine entry is resolvable, as the specification words it: it has an idref, and an
  \<open>item\<close> of the manifest has that identifier.
\<close>

definition spec_resolvable :: "node \<Rightarrow> jsstring option \<Rightarrow> bool" where
  "spec_resolvable xmlDoc idRef =
     (case idRef of
        None \<Rightarrow> False
      | Some r \<Rightarrow>
          list_ex (\<lambda>item. getAttribute item (js ''id'') = Some r)
            (querySelectorAll (Descendant (js ''manifest'') (js ''item'')) xmlDoc))"

text \<open>The text a selector yields for the title fallback, when it is long enough.\<close>

definition acceptable :: "node \<Rightarrow> selector \<Rightarrow> jsstring option" where
  "acceptable doc sel =
     (case querySelector sel doc of
        Some e \<Rightarrow>
          (if length (cleanText (textContent e)) \<ge> 2 then Some (cleanText (textContent e)) else None)
      | None \<Rightarrow> None)"

text \<open>
  The container locator as the specification words it: the declared root-file path when the
  attribute is present, otherwise the first fallback path that exists.
\<close>

definition spec_locate :: "archive \<Rightarrow> jsstring option" where
  "spec_locate z =
     (case (case z (js ''META-INF/container.xml'') of
              None \<Rightarrow> None
            | Some containerFile \<Rightarrow>
                (case xml containerFile of
                   Inl e \<Rightarrow> None
                 | Inr xmlDoc \<Rightarrow>
                     (case querySelector (TypeSel (js ''rootfile'')) xmlDoc of
                        None \<Rightarrow> None
                      | Some rootfile \<Rightarrow> getAttribute rootfile (js ''full-path'')))) of
        Some declared \<Rightarrow> Some declared
      | None \<Rightarrow> probePaths z possiblePaths)"

text \<open>
  The title of a chapter as the specification orders the tiers: the navigation match, then
  the manifest title attribute, then the extracted heading, then the placeholder.
\<close>

definition spec_title :: "jsstring option \<Rightarrow> jsstring option \<Rightarrow> jsstring option \<Rightarrow> jsstring \<Rightarrow> jsstring" where
  "spec_title navTitle manifestTitle extracted placeholder =
     (case navTitle of
        Some t \<Rightarrow> t
      | None \<Rightarrow>
          (case manifestTitle of
             Some t \<Rightarrow> t
           | None \<Rightarrow> (case extracted of Some t \<Rightarrow> t | None \<Rightarrow> placeholder)))"

text \<open>
  A small book: a container descriptor, a package with three manifest items and three spine
  entries (the last names no item), an NCX with one navigation point, two chapter
  documents.
\<close>

definition xhtmlNs :: jsstring where
  "xhtmlNs = js ''http://www.w3.org/1999/xhtml''"

definition containerNs :: jsstring where
  "containerNs = js ''urn:oasis:names:tc:opendocument:xmlns:container''"

definition opfNs :: jsstring where
  "opfNs = js ''http://www.idpf.org/2007/opf''"

definition entryOf :: "8 word list \<Rightarrow> node \<Rightarrow> entry" where
  "entryOf bytes doc =
     \<lparr>arraybuffer = Some bytes, xml = Inr doc, html = Inr doc, otherItem = (\<lambda>v. Inr None)\<rparr>"

definition unreadable :: entry where
  "unreadable =
     \<lparr>arraybuffer = None, xml = Inl ReadError, html = Inl ReadError, otherItem = (\<lambda>v. Inr None)\<rparr>"

definition ex_container :: node where
  "ex_container =
     Element containerNs (js ''container'') []
       [Element containerNs (js ''rootfiles'') []
          [Element containerNs (js ''rootfile'') [(js ''full-path'', js ''OEBPS/content.opf'')] []]]"

definition ex_item_c1 :: node where
  "ex_item_c1 =
     Element opfNs (js ''item'')
       [(js ''id'', js ''c1''), (js ''href'', js ''ch1.xhtml''), (js ''title'', js ''Foo'')] []"

definition ex_package :: node where
  "ex_package =
     Element opfNs (js ''package'') []
       [Element opfNs (js ''manifest'') []
          [Element opfNs (js ''item'') [(js ''id'', js ''ncx''), (js ''href'', js ''toc.ncx'')] [],
           ex_item_c1,
           Element opfNs (js ''item'') [(js ''id'', js ''c2''), (js ''href'', js ''text/ch2.xhtml'')] []],
        Element opfNs (js ''spine'') []
          [Element opfNs (js ''itemref'') [(js ''idref'', js ''c1'')] [],
           Element opfNs (js ''itemref'') [(js ''idref'', js ''c2'')] [],
           Element opfNs (js ''itemref'') [(js ''idref'', js ''gone'')] []]]"

definition ex_ncx :: node where
  "ex_ncx =
     Element ncxNs (js ''ncx'') []
       [Element ncxNs (js ''navMap'') []
          [Element ncxNs (js ''navPoint'') []
             [Element ncxNs (js ''navLabel'') [] [Element ncxNs (js ''text'') [] [Text (js ''Two'')]],
              Element ncxNs (js ''content'') [(js ''src'', js ''text/ch2.xhtml'')] []]]]"

definition ex_ch1 :: node where
  "ex_ch1 =
     Element xhtmlNs (js ''html'') []
       [Element xhtmlNs (js ''body'') [] [Element xhtmlNs (js ''h1'') [] [Text (js ''Opening'')]]]"

definition ex_ch2 :: node where
  "ex_ch2 =
     Element xhtmlNs (js ''html'') []
       [Element xhtmlNs (js ''body'') [] [Element xhtmlNs (js ''h1'') [] [Text (js ''Second'')]]]"

definition ex_archive :: archive where
  "ex_archive =
     map_of
       [(js ''META-INF/container.xml'', entryOf [] ex_container),
        (js ''OEBPS/content.opf'', entryOf [] ex_package),
        (js ''OEBPS/toc.ncx'', entryOf [] ex_ncx),
        (js ''OEBPS/ch1.xhtml'', entryOf [1] ex_ch1),
        (js ''OEBPS/text/ch2.xhtml'', entryOf [2] ex_ch2)]"

definition ex_new :: extractor where
  "ex_new = new_EpubExtractor (Inr ex_archive)"

definition ex_located :: extractor where
  "ex_located =
     \<lparr>epubFile = Inr ex_archive, zipfile = Some ex_archive,
      contentOpfPath = Some (js ''OEBPS/content.opf''), ncxPath = None, chapters = [],
      initialized = False\<rparr>"

definition ex_parsed :: extractor where
  "ex_parsed =
     \<lparr>epubFile = Inr ex_archive, zipfile = Some ex_archive,
      contentOpfPath = Some (js ''OEBPS/content.opf''), ncxPath = Some (js ''OEBPS/toc.ncx''),
      chapters =
        [\<lparr>chapter_id = Some (js ''c1''), path = js ''OEBPS/ch1.xhtml'', src = js ''ch1.xhtml'',
          title = defaultTitle 0\<rparr>,
         \<lparr>chapter_id = Some (js ''c2''), path = js ''OEBPS/text/ch2.xhtml'',
          src = js ''text/ch2.xhtml'', title = defaultTitle 1\<rparr>],
      initialized = False\<rparr>"

definition ex_titled :: extractor where
  "ex_titled =
     \<lparr>epubFile = Inr ex_archive, zipfile = Some ex_archive,
      contentOpfPath = Some (js ''OEBPS/content.opf''), ncxPath = Some (js ''OEBPS/toc.ncx''),
      chapters =
        [\<lparr>chapter_id = Some (js ''c1''), path = js ''OEBPS/ch1.xhtml'', src = js ''ch1.xhtml'',
          title = defaultTitle 0\<rparr>,
         \<lparr>chapter_id = Some (js ''c2''), path = js ''OEBPS/text/ch2.xhtml'',
          src = js ''text/ch2.xhtml'', title = js ''Two''\<rparr>],
      initialized = False\<rparr>"

definition ex_ready :: extractor where
  "ex_ready =
     \<lparr>epubFile = Inr ex_archive, zipfile = Some ex_archive,
      contentOpfPath = Some (js ''OEBPS/content.opf''), ncxPath = Some (js ''OEBPS/toc.ncx''),
      chapters =
        [\<lparr>chapter_id = Some (js ''c1''), path = js ''OEBPS/ch1.xhtml'', src = js ''ch1.xhtml'',
          title = js ''Opening''\<rparr>,
         \<lparr>chapter_id = Some (js ''c2''), path = js ''OEBPS/text/ch2.xhtml'',
          src = js ''text/ch2.xhtml'', title = js ''Two''\<rparr>],
      initialized = True\<rparr>"

text \<open>
  A chapter document with a one-character \<open>h1\<close> and an \<open>h3\<close>.
\<close>

definition ex3_doc :: node where
  "ex3_doc =
     Element xhtmlNs (js ''html'') []
       [Element xhtmlNs (js ''body'') []
          [Element xhtmlNs (js ''h1'') [] [Text (js ''1'')],
           Element xhtmlNs (js ''h3'') [] [Text (js ''Intro'')]]]"

text \<open>
  A navigation document whose only navigation point has a label and a \<open>content\<close> element
  without \<open>src\<close>, and a chapter whose manifest href is the four letters \<open>null\<close>.
\<close>

definition ex5_navPoint :: node where
  "ex5_navPoint =
     Element ncxNs (js ''navPoint'') []
       [Element ncxNs (js ''navLabel'') [] [Element ncxNs (js ''text'') [] [Text (js ''Intro'')]],
        Element ncxNs (js ''content'') [] []]"

definition ex5_ncx :: node where
  "ex5_ncx = Element ncxNs (js ''ncx'') [] [Element ncxNs (js ''navMap'') [] [ex5_navPoint]]"

definition ex5_chapter :: chapterInfo where
  "ex5_chapter =
     \<lparr>chapter_id = Some (js ''c1''), path = js ''OEBPS/null'', src = js ''null'',
      title = defaultTitle 0\<rparr>"

text \<open>
  An archive whose container descriptor has a \<open>rootfile\<close> element without \<open>full-path\<close>,
  and a package document at the first fallback path.
\<close>

definition ex6_container :: node where
  "ex6_container =
     Element containerNs (js ''container'') []
       [Element containerNs (js ''rootfiles'') []
          [Element containerNs (js ''rootfile'') [] []]]"

definition ex6_archive :: archive where
  "ex6_archive =
     map_of
       [(js ''META-INF/container.xml'', entryOf [] ex6_container),
        (js ''OEBPS/content.opf'', entryOf [] ex_package)]"

text \<open>An archive without container descriptor, with a package document at the second fallback path.\<close>

definition ex6b_archive :: archive where
  "ex6b_archive = map_of [(js ''content.opf'', entryOf [] ex_package)]"

text \<open>
  The small book with an NCX entry that cannot be read, and with no NCX entry at all; the
  object after \<open>parseContentOpf\<close> on each.
\<close>

definition ex7_archive :: archive where
  "ex7_archive = ex_archive(js ''OEBPS/toc.ncx'' \<mapsto> unreadable)"

definition ex7_parsed :: extractor where
  "ex7_parsed = ex_parsed\<lparr>epubFile := Inr ex7_archive, zipfile := Some ex7_archive\<rparr>"

definition ex7b_archive :: archive where
  "ex7b_archive = ex_archive(js ''OEBPS/toc.ncx'' := None)"

definition ex7b_parsed :: extractor where
  "ex7b_parsed = ex_parsed\<lparr>epubFile := Inr ex7b_archive, zipfile := Some ex7b_archive\<rparr>"

text \<open>
  The small book without the document of its first chapter, and with a first chapter
  document that cannot be read; the object after each stage of \<open>init\<close>.  In both the first
  chapter keeps its default title.
\<close>

definition ex8_archive :: archive where
  "ex8_archive = ex_archive(js ''OEBPS/ch1.xhtml'' := None)"

definition ex8_parsed :: extractor where
  "ex8_parsed = ex_parsed\<lparr>epubFile := Inr ex8_archive, zipfile := Some ex8_archive\<rparr>"

definition ex8_titled :: extractor where
  "ex8_titled = ex_titled\<lparr>epubFile := Inr ex8_archive, zipfile := Some ex8_archive\<rparr>"

definition ex8_ready :: extractor where
  "ex8_ready = ex8_titled\<lparr>initialized := True\<rparr>"

definition ex8b_archive :: archive where
  "ex8b_archive = ex_archive(js ''OEBPS/ch1.xhtml'' \<mapsto> unreadable)"

definition ex8b_parsed :: extractor where
  "ex8b_parsed = ex_parsed\<lparr>epubFile := Inr ex8b_archive, zipfile := Some ex8b_archive\<rparr>"

definition ex8b_titled :: extractor where
  "ex8b_titled = ex_titled\<lparr>epubFile := Inr ex8b_archive, zipfile := Some ex8b_archive\<rparr>"

definition ex8b_ready :: extractor where
  "ex8b_ready = ex8b_titled\<lparr>initialized := True\<rparr>"

text \<open>
  A book whose only spine entry has no idref, while an item of the manifest has the
  identifier \<open>null\<close>; the object after each stage of \<open>init\<close>.
\<close>

definition ex4_package :: node where
  "ex4_package =
     Element opfNs (js ''package'') []
       [Element opfNs (js ''manifest'') []
          [Element opfNs (js ''item'') [(js ''id'', js ''null''), (js ''href'', js ''ch1.xhtml'')] []],
        Element opfNs (js ''spine'') [] [Element opfNs (js ''itemref'') [] []]]"

definition ex4_archive :: archive where
  "ex4_archive =
     map_of
       [(js ''META-INF/container.xml'', entryOf [] ex_container),
        (js ''OEBPS/content.opf'', entryOf [] ex4_package),
        (js ''OEBPS/ch1.xhtml'', entryOf [1] ex_ch1)]"

definition ex4_new :: extractor where
  "ex4_new = new_EpubExtractor (Inr ex4_archive)"

definition ex4_located :: extractor where
  "ex4_located =
     \<lparr>epubFile = Inr ex4_archive, zipfile = Some ex4_archive,
      contentOpfPath = Some (js ''OEBPS/content.opf''), ncxPath = None, chapters = [],
      initialized = False\<rparr>"

definition ex4_parsed :: extractor where
  "ex4_parsed =
     \<lparr>epubFile = Inr ex4_archive, zipfile = Some ex4_archive,
      contentOpfPath = Some (js ''OEBPS/content.opf''), ncxPath = None,
      chapters =
        [\<lparr>chapter_id = None, path = js ''OEBPS/ch1.xhtml'', src = js ''ch1.xhtml'',
          title = defaultTitle 0\<rparr>],
      initialized = False\<rparr>"

definition ex4_ready :: extractor where
  "ex4_ready =
     \<lparr>epubFile = Inr ex4_archive, zipfile = Some ex4_archive,
      contentOpfPath = Some (js ''OEBPS/content.opf''), ncxPath = None,
      chapters =
        [\<lparr>chapter_id = None, path = js ''OEBPS/ch1.xhtml'', src = js ''ch1.xhtml'',
          title = js ''Opening''\<rparr>],
      initialized = True\<rparr>"

section \<open>Properties of the path resolver\<close>

lemma split_acc_nonempty: "split_acc sep acc str \<noteq> []"
  by (induction str arbitrary: acc) auto

lemma split_acc_no_sep:
  "sep \<notin> set acc \<Longrightarrow> \<forall>p\<in>set (split_acc sep acc str). sep \<notin> set p"
proof (induction str arbitrary: acc)
  case Nil
  then show ?case by simp
next
  case (Cons c cs)
  show ?case
  proof (cases "c = sep")
    case True
    have "\<forall>p\<in>set (split_acc sep [] cs). sep \<notin> set p"
      by (rule Cons.IH) simp
    with True Cons.prems show ?thesis by simp
  next
    case False
    with Cons.prems have "sep \<notin> set (c # acc)" by simp
    then have "\<forall>p\<in>set (split_acc sep (c # acc) cs). sep \<notin> set p"
      by (rule Cons.IH)
    with False show ?thesis by simp
  qed
qed

lemma pathParts_segments: "p \<in> set (pathParts str) \<Longrightarrow> p \<noteq> [] \<and> SLASH \<notin> set p"
  using split_acc_no_sep [of SLASH "[]" str] by (auto simp: pathParts_def js_split_def)

lemma resolveLoop_foldl: "resolveLoop baseParts relativeParts = foldl spec_step baseParts relativeParts"
  by (induction relativeParts arbitrary: baseParts) (auto simp: spec_step_def)

lemma resolvePath_relative:
  "\<not> startsWith relativePath SLASH \<Longrightarrow>
   resolvePath basePath relativePath =
     js_join (foldl spec_step (pathParts basePath) (pathParts relativePath)) SLASH"
  by (simp add: resolvePath_def resolveLoop_foldl)

lemma resolvePath_examples:
  "resolvePath (js ''a/b/'') (js ''../c'') = js ''a/c''"
  "resolvePath (js ''a/b'') (js ''/x/y'') = js ''x/y''"
  "resolvePath (js '''') (js ''../x'') = js ''x''"
  "resolvePath (js ''a'') (js '''') = js ''a''"
  by (simp_all add: resolvePath_def pathParts_def js_split_def js_def)

text \<open>
  C1.  The path resolver pops the last base segment on \<open>'..'\<close> and leaves an empty base
  alone, so that \<open>resolve("", "../x") = "x"\<close>.  \<open>resolvePath\<close> does; the compact method
  \<open>s\<close> appends the \<open>'..'\<close> segment to the empty base instead and returns \<open>"../x"\<close>.
\<close>

theorem C1_s_keeps_parent_segment_on_empty_base:
  "EpubExtractor_s (js '''') (js ''../x'') = js ''../x'' \<and>
   resolvePath (js '''') (js ''../x'') = js ''x''"
  by (simp add: EpubExtractor_s_def resolvePath_def pathParts_def js_split_def js_def)

section \<open>Properties of the title extraction\<close>

lemma t_loop_first_acceptable:
  "t_loop sels doc = (case List.map_filter (acceptable doc) sels of [] \<Rightarrow> None | t # _ \<Rightarrow> Some t)"
  by (induction sels) (auto simp: acceptable_def map_filter_simps split: option.splits)

lemma extractTitle_acceptable:
  "extractTitleFromXhtml doc = Some t \<Longrightarrow> 2 \<le> length t"
proof -
  have "extractLoop sels doc = Some t \<Longrightarrow> 2 \<le> length t" for sels
    by (induction sels) (auto split: option.splits if_splits)
  then show "extractTitleFromXhtml doc = Some t \<Longrightarrow> 2 \<le> length t"
    by (simp add: extractTitleFromXhtml_def)
qed

section \<open>Properties of the package parser\<close>

lemma spineEntry_Inr_None:
  "spineEntry xmlDoc other opfDir idRef k = Inr None \<Longrightarrow> itemById xmlDoc other idRef = Inr None"
  by (auto simp: spineEntry_def split: sum.splits option.splits)

lemma spineEntry_Inr_Some:
  "spineEntry xmlDoc other opfDir idRef k = Inr (Some ch) \<Longrightarrow>
     itemById xmlDoc other idRef \<noteq> Inr None \<and> chapter_id ch = idRef \<and> title ch = defaultTitle k"
  by (auto simp: spineEntry_def split: sum.splits option.splits)

text \<open>
  The chapters after the map and the filter: one for every spine entry whose lookup finds
  an item, in spine order, with the identifier of the entry and the default title numbered
  by the position of the entry in the spine.
\<close>

lemma mapIndexed_chapters:
  "mapIndexed (spineEntry xmlDoc other opfDir) k idRefs = Inr cs \<Longrightarrow>
     map (\<lambda>ch. (chapter_id ch, title ch)) (filterBoolean cs) =
       map (\<lambda>jr. (snd jr, defaultTitle (fst jr)))
         (filter (\<lambda>jr. itemById xmlDoc other (snd jr) \<noteq> Inr None) (enumerate k idRefs))"
proof (induction idRefs arbitrary: k cs)
  case Nil
  then show ?case by (simp add: filterBoolean_def)
next
  case (Cons r rs)
  from Cons.prems obtain y ys where
    y: "spineEntry xmlDoc other opfDir r k = Inr y" and
    ys: "mapIndexed (spineEntry xmlDoc other opfDir) (Suc k) rs = Inr ys" and
    cs: "cs = y # ys"
    by (auto split: sum.splits)
  have ih: "map (\<lambda>ch. (chapter_id ch, title ch)) (filterBoolean ys) =
       map (\<lambda>jr. (snd jr, defaultTitle (fst jr)))
         (filter (\<lambda>jr. itemById xmlDoc other (snd jr) \<noteq> Inr None) (enumerate (Suc k) rs))"
    using ys by (rule Cons.IH)
  show ?case
  proof (cases y)
    case None
    with y have "itemById xmlDoc other r = Inr None" by (simp add: spineEntry_Inr_None)
    with None cs ih show ?thesis by (simp add: filterBoolean_def)
  next
    case (Some ch)
    with y have "itemById xmlDoc other r \<noteq> Inr None \<and> chapter_id ch = r \<and> title ch = defaultTitle k"
      by (simp add: spineEntry_Inr_Some)
    with Some cs ih show ?thesis by (simp add: filterBoolean_def)
  qed
qed

lemma parseContentOpf_chapters:
  assumes "parseContentOpf this = (None, this1)"
    and "zipfile this = Some z" and "z (toString (contentOpfPath this)) = Some f"
    and "xml f = Inr xmlDoc"
  shows "map (\<lambda>ch. (chapter_id ch, title ch)) (chapters this1) =
       map (\<lambda>jr. (snd jr, defaultTitle (fst jr)))
         (filter (\<lambda>jr. itemById xmlDoc (otherItem f) (snd jr) \<noteq> Inr None)
            (enumerate 0 (spineIdRefs xmlDoc)))"
proof -
  from assms obtain p this0 cs where
    "mapIndexed (spineEntry xmlDoc (otherItem f) (opfDirectory p)) 0 (spineIdRefs xmlDoc) = Inr cs"
    "this1 = this0\<lparr>chapters := filterBoolean cs\<rparr>"
    by (auto simp: parseContentOpf_def split: option.splits sum.splits)
  then show ?thesis by (simp add: mapIndexed_chapters)
qed

lemma filter_enumerate_snd:
  "map snd (filter (\<lambda>jr. P (snd jr)) (enumerate k xs)) = filter P xs"
  by (induction xs arbitrary: k) auto

lemma parseContentOpf_ids:
  assumes "parseContentOpf this = (None, this1)"
    and "zipfile this = Some z" and "z (toString (contentOpfPath this)) = Some f"
    and "xml f = Inr xmlDoc"
  shows "map chapter_id (chapters this1) =
       filter (\<lambda>idRef. itemById xmlDoc (otherItem f) idRef \<noteq> Inr None) (spineIdRefs xmlDoc)"
proof -
  have "map fst (map (\<lambda>ch. (chapter_id ch, title ch)) (chapters this1)) =
      map fst (map (\<lambda>jr. (snd jr, defaultTitle (fst jr)))
         (filter (\<lambda>jr. itemById xmlDoc (otherItem f) (snd jr) \<noteq> Inr None)
            (enumerate 0 (spineIdRefs xmlDoc))))"
    by (simp only: parseContentOpf_chapters [OF assms])
  then show ?thesis
    using filter_enumerate_snd [of "\<lambda>idRef. itemById xmlDoc (otherItem f) idRef \<noteq> Inr None" 0
        "spineIdRefs xmlDoc"]
    by (simp add: comp_def)
qed

lemma parseContentOpf_titles:
  assumes "parseContentOpf this = (None, this1)"
    and "zipfile this = Some z" and "z (toString (contentOpfPath this)) = Some f"
    and "xml f = Inr xmlDoc"
  shows "map title (chapters this1) =
       map (\<lambda>jr. defaultTitle (fst jr))
         (filter (\<lambda>jr. itemById xmlDoc (otherItem f) (snd jr) \<noteq> Inr None)
            (enumerate 0 (spineIdRefs xmlDoc)))"
proof -
  have "map snd (map (\<lambda>ch. (chapter_id ch, title ch)) (chapters this1)) =
      map snd (map (\<lambda>jr. (snd jr, defaultTitle (fst jr)))
         (filter (\<lambda>jr. itemById xmlDoc (otherItem f) (snd jr) \<noteq> Inr None)
            (enumerate 0 (spineIdRefs xmlDoc))))"
    by (simp only: parseContentOpf_chapters [OF assms])
  then show ?thesis
    by (simp add: comp_def)
qed

lemma parseContentOpf_zipfile: "zipfile (snd (parseContentOpf this)) = zipfile this"
  by (auto simp: parseContentOpf_def split: option.splits sum.splits)

text \<open>
  The order of \<open>spineIdRefs\<close> is the order of the document: for a package with a manifest of
  items and a spine of item references, it is the list of the idrefs as the spine has them.
\<close>

lemma walk_leaves:
  "concat (map (walk anc) (map (\<lambda>atts. Element ns name atts []) attss)) =
     map (\<lambda>atts. (anc, Element ns name atts [])) attss"
  by (induction attss) auto

lemma spineIdRefs_document_order:
  "spineIdRefs
     (Element ns0 (js ''package'') atts0
        [Element ns1 (js ''manifest'') atts1 (map (\<lambda>atts. Element ns3 (js ''item'') atts []) items),
         Element ns2 (js ''spine'') atts2
           (map (\<lambda>idref. Element ns4 (js ''itemref'') [(js ''idref'', idref)] []) idrefs)]) =
   map Some idrefs"
proof -
  have neq: "js ''package'' \<noteq> js ''itemref''" "js ''manifest'' \<noteq> js ''itemref''"
    "js ''spine'' \<noteq> js ''itemref''" "js ''item'' \<noteq> js ''itemref''"
    by (simp_all add: js_def)
  have irefs: "map (\<lambda>idref. Element ns4 (js ''itemref'') [(js ''idref'', idref)] []) idrefs =
      map (\<lambda>atts. Element ns4 (js ''itemref'') atts []) (map (\<lambda>idref. [(js ''idref'', idref)]) idrefs)"
    by (simp add: comp_def)
  have "querySelectorAll (Descendant (js ''spine'') (js ''itemref''))
     (Element ns0 (js ''package'') atts0
        [Element ns1 (js ''manifest'') atts1 (map (\<lambda>atts. Element ns3 (js ''item'') atts []) items),
         Element ns2 (js ''spine'') atts2
           (map (\<lambda>idref. Element ns4 (js ''itemref'') [(js ''idref'', idref)] []) idrefs)]) =
     map (\<lambda>idref. Element ns4 (js ''itemref'') [(js ''idref'', idref)] []) idrefs"
    by (simp add: querySelectorAll_def walk_leaves irefs neq comp_def filter_map del: map_map)
       (simp add: comp_def)
  then show ?thesis
    by (simp add: spineIdRefs_def comp_def)
qed

text \<open>
  For an idref that is present and plain, the lookup of the code finds an item whenever the
  entry is resolvable, and only then if every \<open>item\<close> element of the document is in the
  manifest.
\<close>

lemma querySelector_None:
  "querySelector sel doc = None \<longleftrightarrow> (\<forall>ae\<in>set (walk [] doc). \<not> matches sel ae)"
proof -
  have "querySelector sel doc = None \<longleftrightarrow> filter (matches sel) (walk [] doc) = []"
    by (cases "filter (matches sel) (walk [] doc)")
       (simp_all add: querySelector_def querySelectorAll_def)
  then show ?thesis
    by (simp add: filter_empty_conv)
qed

lemma matches_item_by_id:
  "matches (TypeAttrEquals (js ''item'') (js ''id'') r) (anc, e) \<longleftrightarrow>
     matches (TypeSel (js ''item'')) (anc, e) \<and> getAttribute e (js ''id'') = Some r"
  by (cases e) auto

lemma lookup_finds_resolvable:
  assumes "cssPlain r"
    and "\<forall>ae\<in>set (walk [] xmlDoc). matches (TypeSel (js ''item'')) ae \<longrightarrow>
           matches (Descendant (js ''manifest'') (js ''item'')) ae"
  shows "itemById xmlDoc other (Some r) \<noteq> Inr None \<longleftrightarrow> spec_resolvable xmlDoc (Some r)"
proof -
  have m: "matches (Descendant (js ''manifest'') (js ''item'')) (anc, e) \<Longrightarrow>
      matches (TypeSel (js ''item'')) (anc, e)" for anc e
    by (cases e) auto
  have "itemById xmlDoc other (Some r) \<noteq> Inr None \<longleftrightarrow>
      (\<exists>ae\<in>set (walk [] xmlDoc). matches (TypeAttrEquals (js ''item'') (js ''id'') r) ae)"
    using assms(1) by (simp add: itemById_def querySelector_None)
  also have "\<dots> \<longleftrightarrow> (\<exists>ae\<in>set (walk [] xmlDoc).
      matches (Descendant (js ''manifest'') (js ''item'')) ae \<and> getAttribute (snd ae) (js ''id'') = Some r)"
  proof -
    have eq: "matches (TypeAttrEquals (js ''item'') (js ''id'') r) ae \<longleftrightarrow>
        matches (Descendant (js ''manifest'') (js ''item'')) ae \<and> getAttribute (snd ae) (js ''id'') = Some r"
      if "ae \<in> set (walk [] xmlDoc)" for ae
      using assms(2) that m [of "fst ae" "snd ae"] matches_item_by_id [of r "fst ae" "snd ae"]
      by auto
    show ?thesis
      by (rule bex_cong [OF refl]) (simp add: eq)
  qed
  also have "\<dots> \<longleftrightarrow> spec_resolvable xmlDoc (Some r)"
    by (simp add: spec_resolvable_def querySelectorAll_def list_ex_iff Bex_def)
  finally show ?thesis .
qed

section \<open>Properties of the navigation resolver\<close>

lemma find_by_key:
  "find (\<lambda>nav. fst nav = k) navs = (case map_of navs k of None \<Rightarrow> None | Some t \<Rightarrow> Some (k, t))"
  by (induction navs) auto

lemma matchNav_by_key:
  "matchNav navs ch = (case map_of navs (src ch) of Some t \<Rightarrow> ch\<lparr>title := t\<rparr> | None \<Rightarrow> ch)"
  by (simp add: matchNav_def find_by_key split: option.splits)

lemma matchNav_empty: "map (matchNav []) cs = cs"
  by (induction cs) (simp_all add: matchNav_def)

lemma matchNav_frame:
  "chapter_id (matchNav navs ch) = chapter_id ch \<and> path (matchNav navs ch) = path ch \<and>
   src (matchNav navs ch) = src ch"
  by (simp add: matchNav_def split: option.splits)

lemma navPointLoop_entries:
  "set (navPointLoop navPoints) =
     {(s, t). \<exists>np\<in>set navPoints. navPointSrc np = Some s \<and> s \<noteq> [] \<and> navPointTitle np = Some t \<and> t \<noteq> []}"
proof (induction navPoints)
  case Nil
  then show ?case by simp
next
  case (Cons np rest)
  show ?case
  proof (cases "truthy (navPointTitle np) \<and> truthy (navPointSrc np)")
    case True
    then obtain s t where "navPointSrc np = Some s" "s \<noteq> []" "navPointTitle np = Some t" "t \<noteq> []"
      by (cases "navPointTitle np"; cases "navPointSrc np") auto
    with Cons.IH show ?thesis by auto
  next
    case False
    then have "\<not> (\<exists>s t. navPointSrc np = Some s \<and> s \<noteq> [] \<and> navPointTitle np = Some t \<and> t \<noteq> [])"
      by auto
    with False Cons.IH show ?thesis by auto
  qed
qed

lemma parseNcx_by_key:
  assumes "ncxPath this = Some p" and "p \<noteq> []" and "zipfile this = Some z"
    and "z p = Some ncxFile" and "xml ncxFile = Inr xmlDoc"
  shows "parseNcx this =
     (None, this\<lparr>chapters :=
        map (\<lambda>ch. case map_of (navPointLoop (xpathNavPoints xmlDoc)) (src ch) of
                    Some t \<Rightarrow> ch\<lparr>title := t\<rparr>
                  | None \<Rightarrow> ch)
            (chapters this)\<rparr>)"
  using assms by (simp add: parseNcx_def parseNcx_try_def matchNav_by_key [abs_def])

lemma parseNcx_no_throw: "zipfile this = Some z \<Longrightarrow> fst (parseNcx this) = None"
  by (simp add: parseNcx_def split: option.splits sum.splits)

lemma parseNcx_frame:
  "zipfile (snd (parseNcx this)) = zipfile this \<and>
   map chapter_id (chapters (snd (parseNcx this))) = map chapter_id (chapters this) \<and>
   length (chapters (snd (parseNcx this))) = length (chapters this)"
  by (auto simp: parseNcx_def parseNcx_try_def matchNav_frame split: option.splits sum.splits)

section \<open>Properties of the title fallback\<close>

lemma preloadChapter_frame:
  "chapter_id (snd (preloadChapter zf ch k)) = chapter_id ch \<and>
   path (snd (preloadChapter zf ch k)) = path ch \<and> src (snd (preloadChapter zf ch k)) = src ch"
  by (auto simp: preloadChapter_def preloadChapter_try_def split: option.splits sum.splits)

lemma preloadFrom_length: "length (preloadFrom zf k cs) = length cs"
  by (induction cs arbitrary: k) auto

lemma preloadFrom_nth:
  "i < length cs \<Longrightarrow> preloadFrom zf k cs ! i = preloadChapter zf (cs ! i) (k + i)"
proof (induction cs arbitrary: k i)
  case Nil
  then show ?case by simp
next
  case (Cons c cs)
  show ?case
  proof (cases i)
    case 0
    then show ?thesis by simp
  next
    case (Suc j)
    with Cons.prems have "j < length cs" by simp
    then have "preloadFrom zf (k + 1) cs ! j = preloadChapter zf (cs ! j) (k + 1 + j)"
      by (rule Cons.IH)
    with Suc show ?thesis by simp
  qed
qed

lemma preloadFrom_ids: "map (\<lambda>r. chapter_id (snd r)) (preloadFrom zf k cs) = map chapter_id cs"
  by (induction cs arbitrary: k) (auto simp: preloadChapter_frame)

lemma preloadFrom_lookups:
  "concat (map fst (preloadFrom (Some z) k cs)) =
     map (\<lambda>r. path (snd r)) (filter (\<lambda>r. title (snd r) = defaultTitle (fst r)) (enumerate k cs))"
  by (induction cs arbitrary: k) (auto simp: preloadChapter_def)

lemma preload_frame:
  "zipfile (snd (preloadChapterTitles this)) = zipfile this \<and>
   map chapter_id (chapters (snd (preloadChapterTitles this))) = map chapter_id (chapters this) \<and>
   initialized (snd (preloadChapterTitles this)) = initialized this"
  by (simp add: preloadChapterTitles_def preloadFrom_ids comp_def)

section \<open>Properties of the facade\<close>

lemma init_steps:
  assumes "\<not> initialized this" and "init this = (None, this')"
  shows "\<exists>z p this1 this2.
           epubFile this = Inr z \<and> findContentOpf z = Inr (Some p) \<and> p \<noteq> [] \<and>
           parseContentOpf (this\<lparr>zipfile := Some z, contentOpfPath := Some p\<rparr>) = (None, this1) \<and>
           this2 = (if truthy (ncxPath this1) then snd (parseNcx this1) else this1) \<and>
           this' = (snd (preloadChapterTitles this2))\<lparr>initialized := True\<rparr>"
proof -
  from assms obtain z where z: "epubFile this = Inr z"
    by (auto simp: init_def split: sum.splits)
  from assms z obtain q where q: "findContentOpf z = Inr q" "truthy q"
    by (auto simp: init_def split: sum.splits if_splits)
  then obtain p where p: "q = Some p" "p \<noteq> []" by (cases q) auto
  from assms z q p obtain this1 where
    this1: "parseContentOpf (this\<lparr>zipfile := Some z, contentOpfPath := Some p\<rparr>) = (None, this1)"
    by (auto simp: init_def split: prod.splits option.splits)
  from assms z q p this1 have
    "this' = (snd (preloadChapterTitles (if truthy (ncxPath this1) then snd (parseNcx this1) else this1)))
               \<lparr>initialized := True\<rparr>"
    by (auto simp: init_def split: prod.splits option.splits if_splits)
  with z q p this1 show ?thesis by blast
qed

lemma init_ready:
  assumes "\<not> initialized this" and "init this = (None, this')" and "epubFile this = Inr z"
  shows "initialized this' \<and> zipfile this' = Some z"
proof -
  from init_steps [OF assms(1,2)] assms(3) obtain p this1 this2 where
    h: "parseContentOpf (this\<lparr>zipfile := Some z, contentOpfPath := Some p\<rparr>) = (None, this1)"
       "this2 = (if truthy (ncxPath this1) then snd (parseNcx this1) else this1)"
       "this' = (snd (preloadChapterTitles this2))\<lparr>initialized := True\<rparr>"
    by auto
  have "zipfile this1 = Some z"
    using parseContentOpf_zipfile [of "this\<lparr>zipfile := Some z, contentOpfPath := Some p\<rparr>"] h(1) by simp
  then have "zipfile this2 = Some z" using h(2) parseNcx_frame [of this1] by simp
  then show ?thesis using h(3) preload_frame [of this2] by simp
qed

lemma queries_before_init:
  "\<not> initialized this \<Longrightarrow>
     fst (getChapterCount this) = Inl NotInitialized \<and>
     fst (getChapterTitles this) = Inl NotInitialized \<and>
     fst (getChapterTitle this i) = Inl NotInitialized \<and>
     fst (getChapterXhtml this i) = Inl NotInitialized"
  by (simp add: getChapterCount_def getChapterTitles_def getChapterTitle_def getChapterXhtml_def)

lemma belowZero_int: "belowZero (Finite (of_int k)) = (k < 0)"
  by simp

lemma atLeastLength_int: "atLeastLength (Finite (of_int k)) xs = (int (length xs) \<le> k)"
proof -
  have "(of_nat (length xs) :: rat) = of_int (int (length xs))" by simp
  then show ?thesis by (simp only: atLeastLength.simps of_int_le_iff)
qed

lemma arrayRead_int:
  "0 \<le> k \<Longrightarrow> k < int (length xs) \<Longrightarrow> arrayRead xs (Finite (of_int k)) = Some (xs ! nat k)"
proof -
  assume k: "0 \<le> k" "k < int (length xs)"
  have "(of_nat (length xs) :: rat) = of_int (int (length xs))" by simp
  with k have "(of_int k :: rat) < of_nat (length xs)" by (simp only: of_int_less_iff)
  with k show ?thesis by simp
qed

text \<open>
  A number that is no array index passes the range check, when it lies in the range or is
  not-a-number, and the read of \<open>undefined.path\<close> throws.
\<close>

lemma getChapterXhtml_no_index:
  assumes "initialized this" and "zipfile this = Some z" and "chapters this \<noteq> []"
  shows "fst (getChapterXhtml this NaN) = Inl TypeError"
    and "fst (getChapterXhtml this (Finite (1 / 2))) = Inl TypeError"
proof -
  from assms(3) have "(1::rat) \<le> of_nat (length (chapters this))"
    by (cases "chapters this") simp_all
  then have "\<not> (of_nat (length (chapters this)) \<le> (1 / 2 :: rat))" by simp
  moreover have "\<lfloor>1 / 2 :: rat\<rfloor> = 0" by (simp add: floor_eq_iff)
  then have "(1 / 2 :: rat) \<noteq> of_int \<lfloor>1 / 2 :: rat\<rfloor>" by simp
  ultimately show "fst (getChapterXhtml this (Finite (1 / 2))) = Inl TypeError"
    using assms(1,2) by (simp add: getChapterXhtml_def)
  show "fst (getChapterXhtml this NaN) = Inl TypeError"
    using assms(1,2) by (simp add: getChapterXhtml_def)
qed

text \<open>
  After a successful \<open>init\<close> the chapters are the spine entries whose lookup finds an item,
  in spine order.
\<close>

lemma init_chapter_ids:
  assumes "\<not> initialized this" and "init this = (None, this')" and "epubFile this = Inr z"
    and "findContentOpf z = Inr (Some p)" and "z p = Some f" and "xml f = Inr xmlDoc"
  shows "map chapter_id (chapters this') =
       filter (\<lambda>idRef. itemById xmlDoc (otherItem f) idRef \<noteq> Inr None) (spineIdRefs xmlDoc)"
proof -
  from init_steps [OF assms(1,2)] assms(3,4) obtain this1 this2 where
    h: "parseContentOpf (this\<lparr>zipfile := Some z, contentOpfPath := Some p\<rparr>) = (None, this1)"
       "this2 = (if truthy (ncxPath this1) then snd (parseNcx this1) else this1)"
       "this' = (snd (preloadChapterTitles this2))\<lparr>initialized := True\<rparr>"
    by auto
  have "map chapter_id (chapters this1) =
       filter (\<lambda>idRef. itemById xmlDoc (otherItem f) idRef \<noteq> Inr None) (spineIdRefs xmlDoc)"
  proof (rule parseContentOpf_ids [OF h(1)])
    show "zipfile (this\<lparr>zipfile := Some z, contentOpfPath := Some p\<rparr>) = Some z"
      by simp
    show "z (toString (contentOpfPath (this\<lparr>zipfile := Some z, contentOpfPath := Some p\<rparr>))) = Some f"
      using assms(5) by simp
    show "xml f = Inr xmlDoc" by (rule assms(6))
  qed
  then have "map chapter_id (chapters this2) =
       filter (\<lambda>idRef. itemById xmlDoc (otherItem f) idRef \<noteq> Inr None) (spineIdRefs xmlDoc)"
    using h(2) parseNcx_frame [of this1] by simp
  then show ?thesis
    using h(3) preload_frame [of this2] by simp
qed

text \<open>
  On a package whose spine entries all carry an idref free of quotation marks, backslashes
  and line breaks, and whose \<open>item\<close> elements all lie in the manifest, the chapters after a
  successful \<open>init\<close> are the resolvable spine entries in spine order, and the chapter count
  is the number of spine entries minus the unresolvable ones.
\<close>

lemma init_chapters_follow_spine:
  assumes "\<not> initialized this" and "init this = (None, this')" and "epubFile this = Inr z"
    and "findContentOpf z = Inr (Some p)" and "z p = Some f" and "xml f = Inr xmlDoc"
    and plain: "\<forall>idRef\<in>set (spineIdRefs xmlDoc). \<exists>r. idRef = Some r \<and> cssPlain r"
    and manifest: "\<forall>ae\<in>set (walk [] xmlDoc). matches (TypeSel (js ''item'')) ae \<longrightarrow>
           matches (Descendant (js ''manifest'') (js ''item'')) ae"
  shows "map chapter_id (chapters this') = filter (spec_resolvable xmlDoc) (spineIdRefs xmlDoc)"
    and "fst (getChapterCount this') =
       Inr (length (spineIdRefs xmlDoc) -
            length (filter (\<lambda>idRef. \<not> spec_resolvable xmlDoc idRef) (spineIdRefs xmlDoc)))"
proof -
  have "filter (\<lambda>idRef. itemById xmlDoc (otherItem f) idRef \<noteq> Inr None) (spineIdRefs xmlDoc) =
      filter (spec_resolvable xmlDoc) (spineIdRefs xmlDoc)"
  proof (rule filter_cong [OF refl])
    fix idRef assume "idRef \<in> set (spineIdRefs xmlDoc)"
    with plain obtain r where "idRef = Some r" "cssPlain r" by blast
    then show "(itemById xmlDoc (otherItem f) idRef \<noteq> Inr None) = spec_resolvable xmlDoc idRef"
      using lookup_finds_resolvable [OF _ manifest, of r "otherItem f"] by simp
  qed
  with init_chapter_ids [OF assms(1-6)]
  show ids: "map chapter_id (chapters this') = filter (spec_resolvable xmlDoc) (spineIdRefs xmlDoc)"
    by simp
  have "length (chapters this') = length (map chapter_id (chapters this'))" by simp
  also have "\<dots> = length (filter (spec_resolvable xmlDoc) (spineIdRefs xmlDoc))"
    by (simp only: ids)
  finally have "length (chapters this') =
      length (spineIdRefs xmlDoc) -
        length (filter (\<lambda>idRef. \<not> spec_resolvable xmlDoc idRef) (spineIdRefs xmlDoc))"
    using sum_length_filter_compl [of "spec_resolvable xmlDoc" "spineIdRefs xmlDoc"] by arith
  moreover have "initialized this'"
    using init_ready [OF assms(1-3)] by simp
  ultimately show "fst (getChapterCount this') =
       Inr (length (spineIdRefs xmlDoc) -
            length (filter (\<lambda>idRef. \<not> spec_resolvable xmlDoc idRef) (spineIdRefs xmlDoc)))"
    by (simp add: getChapterCount_def)
qed

section \<open>The sample inputs, evaluated\<close>

lemmas string_eval = js_def cleanText_def trim_def collapseSpaces_def is_space_def
lemmas query_eval = querySelector_def querySelectorAll_def
lemmas xpath_eval = xpathNavPoints_def xpathLabelText_def xpathContent_def ncxChildren_def firstNode_def
  navPointTitle_def navPointSrc_def
lemmas path_eval = resolvePath_def pathParts_def js_split_def opfDirectory_def lastIndexOf_def
lemmas parse_eval = parseContentOpf_def spineIdRefs_def spineEntry_def itemById_def cssPlain_def
  filterBoolean_def
lemmas nav_eval = parseNcx_def parseNcx_try_def matchNav_def
lemmas preload_eval = preloadChapterTitles_def preloadChapter_def preloadChapter_try_def
  extractTitleFromXhtml_def titleSelectors_def

lemma entryOf_reads:
  "xml (entryOf b d) = Inr d" "html (entryOf b d) = Inr d" "arraybuffer (entryOf b d) = Some b"
  by (simp_all add: entryOf_def)

lemma unreadable_reads:
  "xml unreadable = Inl ReadError" "html unreadable = Inl ReadError" "arraybuffer unreadable = None"
  by (simp_all add: unreadable_def)

lemma ex_archive_entries:
  "ex_archive (js ''META-INF/container.xml'') = Some (entryOf [] ex_container)"
  "ex_archive (js ''OEBPS/content.opf'') = Some (entryOf [] ex_package)"
  "ex_archive (js ''OEBPS/toc.ncx'') = Some (entryOf [] ex_ncx)"
  "ex_archive (js ''OEBPS/ch1.xhtml'') = Some (entryOf [1] ex_ch1)"
  "ex_archive (js ''OEBPS/text/ch2.xhtml'') = Some (entryOf [2] ex_ch2)"
  by (simp_all add: ex_archive_def js_def)

lemmas ex_archive_reads = ex_archive_entries [unfolded js_def, simplified]

lemma ex_rootfile:
  "querySelector (TypeSel (js ''rootfile'')) ex_container =
     Some (Element containerNs (js ''rootfile'') [(js ''full-path'', js ''OEBPS/content.opf'')] [])"
  by (simp add: ex_container_def query_eval js_def)

lemma ex_find: "findContentOpf ex_archive = Inr (Some (js ''OEBPS/content.opf''))"
  by (simp add: findContentOpf_def ex_archive_entries entryOf_reads ex_rootfile)

lemma ex_spine: "spineIdRefs ex_package = [Some (js ''c1''), Some (js ''c2''), Some (js ''gone'')]"
  by (simp add: spineIdRefs_def ex_package_def ex_item_c1_def query_eval js_def)

lemma ex_parse: "parseContentOpf ex_located = (None, ex_parsed)"
  by (simp add: ex_located_def ex_parsed_def parse_eval ex_archive_reads entryOf_reads
       ex_package_def ex_item_c1_def query_eval path_eval js_def defaultTitle_def decimal.simps)

lemma ex_navPoints: "navPointLoop (xpathNavPoints ex_ncx) = [(js ''text/ch2.xhtml'', js ''Two'')]"
  by (simp add: ex_ncx_def xpath_eval string_eval)

lemma ex_nav: "parseNcx ex_parsed = (None, ex_titled)"
  by (simp add: ex_parsed_def ex_titled_def nav_eval ex_archive_entries entryOf_reads ex_navPoints)
     (simp add: js_def)

lemma ex_extract: "extractTitleFromXhtml ex_ch1 = Some (js ''Opening'')"
  by (simp add: extractTitleFromXhtml_def titleSelectors_def ex_ch1_def query_eval string_eval)

lemma ex_default_titles:
  "defaultTitle 0 = [0x7AE0, 0x8282, 0x31]" "defaultTitle (Suc 0) = [0x7AE0, 0x8282, 0x32]"
  "defaultTitle 1 = [0x7AE0, 0x8282, 0x32]"
  by (simp_all add: defaultTitle_def decimal.simps)

lemma ex_preload:
  "preloadChapterTitles ex_titled = ([js ''OEBPS/ch1.xhtml''], ex_ready\<lparr>initialized := False\<rparr>)"
  by (simp add: ex_ready_def ex_titled_def preloadChapterTitles_def preloadChapter_def preloadChapter_try_def
       ex_archive_entries entryOf_reads ex_extract)
     (simp add: ex_default_titles js_def)

lemma ex_init: "init ex_new = (None, ex_ready)"
proof -
  have 1: "ex_new\<lparr>zipfile := Some ex_archive, contentOpfPath := Some (js ''OEBPS/content.opf'')\<rparr> = ex_located"
    by (simp add: ex_new_def new_EpubExtractor_def ex_located_def)
  have 2: "js ''OEBPS/content.opf'' \<noteq> []" "truthy (ncxPath ex_parsed)"
    by (simp_all add: js_def ex_parsed_def)
  have 3: "\<not> initialized ex_new" "epubFile ex_new = Inr ex_archive"
    by (simp_all add: ex_new_def new_EpubExtractor_def)
  have 4: "ex_ready\<lparr>initialized := True\<rparr> = ex_ready"
    by (simp add: ex_ready_def)
  show ?thesis
    by (simp add: init_def 3 ex_find 2 1 ex_parse ex_nav ex_preload 4)
qed

lemma ex4_archive_entries:
  "ex4_archive (js ''META-INF/container.xml'') = Some (entryOf [] ex_container)"
  "ex4_archive (js ''OEBPS/content.opf'') = Some (entryOf [] ex4_package)"
  "ex4_archive (js ''OEBPS/ch1.xhtml'') = Some (entryOf [1] ex_ch1)"
  by (simp_all add: ex4_archive_def js_def)

lemma ex4_find: "findContentOpf ex4_archive = Inr (Some (js ''OEBPS/content.opf''))"
  by (simp add: findContentOpf_def ex4_archive_entries entryOf_reads ex_rootfile)

lemma ex4_spine: "spineIdRefs ex4_package = [None]"
  by (simp add: spineIdRefs_def ex4_package_def query_eval js_def)

lemma ex4_parse: "parseContentOpf ex4_located = (None, ex4_parsed)"
  by (simp add: ex4_located_def ex4_parsed_def parse_eval
       ex4_archive_entries [unfolded js_def, simplified] entryOf_reads
       ex4_package_def query_eval path_eval js_def defaultTitle_def decimal.simps)

lemma ex4_preload:
  "preloadChapterTitles ex4_parsed = ([js ''OEBPS/ch1.xhtml''], ex4_ready\<lparr>initialized := False\<rparr>)"
  by (simp add: ex4_ready_def ex4_parsed_def preloadChapterTitles_def preloadChapter_def
       preloadChapter_try_def ex4_archive_entries entryOf_reads ex_extract)
     (simp add: js_def)

lemma ex4_init: "init ex4_new = (None, ex4_ready)"
proof -
  have 1: "ex4_new\<lparr>zipfile := Some ex4_archive, contentOpfPath := Some (js ''OEBPS/content.opf'')\<rparr> =
      ex4_located"
    by (simp add: ex4_new_def new_EpubExtractor_def ex4_located_def)
  have 2: "js ''OEBPS/content.opf'' \<noteq> []" "\<not> truthy (ncxPath ex4_parsed)"
    by (simp_all add: js_def ex4_parsed_def)
  have 3: "\<not> initialized ex4_new" "epubFile ex4_new = Inr ex4_archive"
    by (simp_all add: ex4_new_def new_EpubExtractor_def)
  have 4: "ex4_ready\<lparr>initialized := True\<rparr> = ex4_ready"
    by (simp add: ex4_ready_def)
  show ?thesis
    by (simp add: init_def 3 ex4_find 2 1 ex4_parse ex4_preload 4)
qed

lemma ex8_entries:
  "ex8_archive (js ''META-INF/container.xml'') = Some (entryOf [] ex_container)"
  "ex8_archive (js ''OEBPS/content.opf'') = Some (entryOf [] ex_package)"
  "ex8_archive (js ''OEBPS/toc.ncx'') = Some (entryOf [] ex_ncx)"
  "ex8_archive (js ''OEBPS/ch1.xhtml'') = None"
proof -
  have "js ''META-INF/container.xml'' \<noteq> js ''OEBPS/ch1.xhtml''"
    "js ''OEBPS/content.opf'' \<noteq> js ''OEBPS/ch1.xhtml''"
    "js ''OEBPS/toc.ncx'' \<noteq> js ''OEBPS/ch1.xhtml''"
    by (simp_all add: js_def)
  then show "ex8_archive (js ''META-INF/container.xml'') = Some (entryOf [] ex_container)"
    "ex8_archive (js ''OEBPS/content.opf'') = Some (entryOf [] ex_package)"
    "ex8_archive (js ''OEBPS/toc.ncx'') = Some (entryOf [] ex_ncx)"
    "ex8_archive (js ''OEBPS/ch1.xhtml'') = None"
    by (simp_all add: ex8_archive_def ex_archive_entries)
qed

lemma ex8_find: "findContentOpf ex8_archive = Inr (Some (js ''OEBPS/content.opf''))"
  by (simp add: findContentOpf_def ex8_entries entryOf_reads ex_rootfile)

lemma ex8_parse:
  "parseContentOpf ((new_EpubExtractor (Inr ex8_archive))
      \<lparr>zipfile := Some ex8_archive, contentOpfPath := Some (js ''OEBPS/content.opf'')\<rparr>) = (None, ex8_parsed)"
  by (simp add: new_EpubExtractor_def ex8_parsed_def ex_parsed_def parse_eval
      ex8_entries [unfolded js_def, simplified]
      entryOf_reads ex_package_def ex_item_c1_def query_eval path_eval js_def defaultTitle_def decimal.simps)

lemma ex8_nav: "parseNcx ex8_parsed = (None, ex8_titled)"
  by (simp add: ex8_parsed_def ex8_titled_def ex_parsed_def ex_titled_def nav_eval ex8_entries
      entryOf_reads ex_navPoints)
     (simp add: js_def)

lemma ex8_preload:
  "preloadChapterTitles ex8_titled = ([js ''OEBPS/ch1.xhtml''], ex8_titled)"
  by (simp add: ex8_titled_def ex_titled_def preloadChapterTitles_def preloadChapter_def
       preloadChapter_try_def ex8_entries)
     (simp add: ex_default_titles js_def)

lemma ex8_init: "init (new_EpubExtractor (Inr ex8_archive)) = (None, ex8_ready)"
proof -
  have 2: "js ''OEBPS/content.opf'' \<noteq> []" "truthy (ncxPath ex8_parsed)"
    by (simp_all add: js_def ex8_parsed_def ex_parsed_def)
  have 3: "\<not> initialized (new_EpubExtractor (Inr ex8_archive))"
    "epubFile (new_EpubExtractor (Inr ex8_archive)) = Inr ex8_archive"
    by (simp_all add: new_EpubExtractor_def)
  show ?thesis
    by (simp add: init_def 3 ex8_find 2 ex8_parse ex8_nav ex8_preload ex8_ready_def)
qed

lemma ex8b_entries:
  "ex8b_archive (js ''META-INF/container.xml'') = Some (entryOf [] ex_container)"
  "ex8b_archive (js ''OEBPS/content.opf'') = Some (entryOf [] ex_package)"
  "ex8b_archive (js ''OEBPS/toc.ncx'') = Some (entryOf [] ex_ncx)"
  "ex8b_archive (js ''OEBPS/ch1.xhtml'') = Some unreadable"
proof -
  have "js ''META-INF/container.xml'' \<noteq> js ''OEBPS/ch1.xhtml''"
    "js ''OEBPS/content.opf'' \<noteq> js ''OEBPS/ch1.xhtml''"
    "js ''OEBPS/toc.ncx'' \<noteq> js ''OEBPS/ch1.xhtml''"
    by (simp_all add: js_def)
  then show "ex8b_archive (js ''META-INF/container.xml'') = Some (entryOf [] ex_container)"
    "ex8b_archive (js ''OEBPS/content.opf'') = Some (entryOf [] ex_package)"
    "ex8b_archive (js ''OEBPS/toc.ncx'') = Some (entryOf [] ex_ncx)"
    "ex8b_archive (js ''OEBPS/ch1.xhtml'') = Some unreadable"
    by (simp_all add: ex8b_archive_def ex_archive_entries)
qed

lemma ex8b_find: "findContentOpf ex8b_archive = Inr (Some (js ''OEBPS/content.opf''))"
  by (simp add: findContentOpf_def ex8b_entries entryOf_reads ex_rootfile)

lemma ex8b_parse:
  "parseContentOpf ((new_EpubExtractor (Inr ex8b_archive))
      \<lparr>zipfile := Some ex8b_archive, contentOpfPath := Some (js ''OEBPS/content.opf'')\<rparr>) = (None, ex8b_parsed)"
  by (simp add: new_EpubExtractor_def ex8b_parsed_def ex_parsed_def parse_eval
      ex8b_entries [unfolded js_def, simplified]
      entryOf_reads ex_package_def ex_item_c1_def query_eval path_eval js_def defaultTitle_def decimal.simps)

lemma ex8b_nav: "parseNcx ex8b_parsed = (None, ex8b_titled)"
  by (simp add: ex8b_parsed_def ex8b_titled_def ex_parsed_def ex_titled_def nav_eval ex8b_entries
      entryOf_reads ex_navPoints)
     (simp add: js_def)

lemma ex8b_preload:
  "preloadChapterTitles ex8b_titled = ([js ''OEBPS/ch1.xhtml''], ex8b_titled)"
  by (simp add: ex8b_titled_def ex_titled_def preloadChapterTitles_def preloadChapter_def
       preloadChapter_try_def ex8b_entries unreadable_reads)
     (simp add: ex_default_titles js_def)

lemma ex8b_init: "init (new_EpubExtractor (Inr ex8b_archive)) = (None, ex8b_ready)"
proof -
  have 2: "js ''OEBPS/content.opf'' \<noteq> []" "truthy (ncxPath ex8b_parsed)"
    by (simp_all add: js_def ex8b_parsed_def ex_parsed_def)
  have 3: "\<not> initialized (new_EpubExtractor (Inr ex8b_archive))"
    "epubFile (new_EpubExtractor (Inr ex8b_archive)) = Inr ex8b_archive"
    by (simp_all add: new_EpubExtractor_def)
  show ?thesis
    by (simp add: init_def 3 ex8b_find 2 ex8b_parse ex8b_nav ex8b_preload ex8b_ready_def)
qed

section \<open>The claims\<close>

text \<open>
  C2, as stated, fails on the small book.  Its first chapter has no navigation entry
  and its manifest item carries \<open>title="Foo"\<close>, yet after \<open>init\<close> the chapter is titled by the
  heading of its document: the manifest title attribute is not a tier of this extractor.
\<close>

theorem C2_manifest_title_not_consulted:
  "fst (init ex_new) = None \<and>
   map title (chapters (snd (init ex_new))) = [js ''Opening'', js ''Two''] \<and>
   src (chapters (snd (init ex_new)) ! 0) = js ''ch1.xhtml'' \<and>
   map_of (navPointLoop (xpathNavPoints ex_ncx)) (js ''ch1.xhtml'') = None \<and>
   itemById ex_package (otherItem (entryOf [] ex_package))
     (chapter_id (chapters (snd (init ex_new)) ! 0)) = Inr (Some ex_item_c1) \<and>
   getAttribute ex_item_c1 (js ''title'') = Some (js ''Foo'') \<and>
   title (chapters (snd (init ex_new)) ! 0) \<noteq>
     spec_title (map_of (navPointLoop (xpathNavPoints ex_ncx)) (js ''ch1.xhtml''))
       (getAttribute ex_item_c1 (js ''title'')) (extractTitleFromXhtml ex_ch1) (defaultTitle 0)"
proof -
  have 1: "itemById ex_package other (Some (js ''c1'')) = Inr (Some ex_item_c1)" for other
    by (simp add: itemById_def cssPlain_def ex_package_def ex_item_c1_def query_eval js_def)
  have 2: "getAttribute ex_item_c1 (js ''title'') = Some (js ''Foo'')"
    by (simp add: ex_item_c1_def js_def)
  have 3: "map_of (navPointLoop (xpathNavPoints ex_ncx)) (js ''ch1.xhtml'') = None"
    by (simp add: ex_navPoints js_def)
  have 4: "js ''Opening'' \<noteq> js ''Foo''"
    by (simp add: js_def)
  show ?thesis
    by (simp add: ex_init ex_ready_def 1 2 3 4 spec_title_def)
qed

text \<open>
  C2, amended.  The tiers of this extractor are navigation match, heading extraction and
  placeholder; the package parser writes the placeholder, numbered by the position of the
  entry in the spine, whatever the manifest item declares.  For a chapter whose placeholder
  number is its position in the chapter list (no dropped spine entry precedes it): after
  navigation resolution its title is the navigation title of its href, if there is one, and
  the placeholder otherwise; when that title is not the placeholder, the fallback callback
  of the chapter asks the archive for nothing and leaves the chapter as it is; when it is
  the placeholder, the chapter takes the extracted heading, if there is one, and keeps the
  placeholder otherwise.
\<close>

theorem C2_title_tiers:
  assumes "parseContentOpf this = (None, this1)" and "zipfile this = Some z"
    and "this2 = (if truthy (ncxPath this1) then snd (parseNcx this1) else this1)"
    and "this3 = snd (preloadChapterTitles this2)"
  shows "(z (toString (contentOpfPath this)) = Some f \<and> xml f = Inr xmlDoc \<longrightarrow>
        map title (chapters this1) =
          map (\<lambda>jr. defaultTitle (fst jr))
            (filter (\<lambda>jr. itemById xmlDoc (otherItem f) (snd jr) \<noteq> Inr None)
               (enumerate 0 (spineIdRefs xmlDoc)))) \<and>
     (ncxPath this1 = Some p \<and> p \<noteq> [] \<and> z p = Some ncxFile \<and> xml ncxFile = Inr navDoc \<longrightarrow>
        (\<forall>i<length (chapters this1).
           title (chapters this2 ! i) =
             (case map_of (navPointLoop (xpathNavPoints navDoc)) (src (chapters this1 ! i)) of
                Some t \<Rightarrow> t
              | None \<Rightarrow> title (chapters this1 ! i)))) \<and>
     length (chapters this2) = length (chapters this1) \<and>
     length (chapters this3) = length (chapters this1) \<and>
     (\<forall>i<length (chapters this1). title (chapters this1 ! i) = defaultTitle i \<longrightarrow>
        (title (chapters this2 ! i) \<noteq> defaultTitle i \<longrightarrow>
           preloadFrom (zipfile this2) 0 (chapters this2) ! i = ([], chapters this2 ! i) \<and>
           chapters this3 ! i = chapters this2 ! i) \<and>
        (title (chapters this2 ! i) = defaultTitle i \<longrightarrow>
           chapters this3 ! i =
             (case z (path (chapters this2 ! i)) of
                None \<Rightarrow> chapters this2 ! i
              | Some g \<Rightarrow>
                  (case html g of
                     Inl e \<Rightarrow> chapters this2 ! i
                   | Inr doc \<Rightarrow>
                       (case extractTitleFromXhtml doc of
                          None \<Rightarrow> chapters this2 ! i
                        | Some t \<Rightarrow> (chapters this2 ! i)\<lparr>title := t\<rparr>)))))"
proof -
  have z1: "zipfile this1 = Some z"
    using parseContentOpf_zipfile [of this] assms(1,2) by simp
  have z2: "zipfile this2 = Some z"
    using assms(3) z1 parseNcx_frame [of this1] by simp
  have len2: "length (chapters this2) = length (chapters this1)"
    using assms(3) parseNcx_frame [of this1] by simp
  have placeholders: "map title (chapters this1) =
          map (\<lambda>jr. defaultTitle (fst jr))
            (filter (\<lambda>jr. itemById xmlDoc (otherItem f) (snd jr) \<noteq> Inr None)
               (enumerate 0 (spineIdRefs xmlDoc)))"
    if "z (toString (contentOpfPath this)) = Some f" "xml f = Inr xmlDoc"
    using parseContentOpf_titles [OF assms(1,2) that] .
  have nav: "\<forall>i<length (chapters this1).
           title (chapters this2 ! i) =
             (case map_of (navPointLoop (xpathNavPoints navDoc)) (src (chapters this1 ! i)) of
                Some t \<Rightarrow> t
              | None \<Rightarrow> title (chapters this1 ! i))"
    if h: "ncxPath this1 = Some p" "p \<noteq> []" "z p = Some ncxFile" "xml ncxFile = Inr navDoc"
  proof -
    from h assms(3) have "this2 = snd (parseNcx this1)" by simp
    then have "chapters this2 =
        map (\<lambda>ch. case map_of (navPointLoop (xpathNavPoints navDoc)) (src ch) of
                    Some t \<Rightarrow> ch\<lparr>title := t\<rparr>
                  | None \<Rightarrow> ch)
            (chapters this1)"
      using parseNcx_by_key [OF h(1,2) z1 h(3,4)] by simp
    then show ?thesis by (simp split: option.splits)
  qed
  have guard: "length (chapters this3) = length (chapters this2) \<and>
     (\<forall>i<length (chapters this2).
        (title (chapters this2 ! i) \<noteq> defaultTitle i \<longrightarrow>
           preloadFrom (zipfile this2) 0 (chapters this2) ! i = ([], chapters this2 ! i) \<and>
           chapters this3 ! i = chapters this2 ! i) \<and>
        (title (chapters this2 ! i) = defaultTitle i \<longrightarrow>
           chapters this3 ! i =
             (case preloadChapter_try (zipfile this2) (chapters this2 ! i) of
                Inl e \<Rightarrow> chapters this2 ! i
              | Inr ch \<Rightarrow> ch)))"
    using assms(4)
    by (simp add: preloadChapterTitles_def preloadFrom_length preloadFrom_nth preloadChapter_def)
  have tried: "(case preloadChapter_try (Some z) ch of Inl e \<Rightarrow> ch | Inr ch1 \<Rightarrow> ch1) =
      (case z (path ch) of
         None \<Rightarrow> ch
       | Some g \<Rightarrow>
           (case html g of
              Inl e \<Rightarrow> ch
            | Inr doc \<Rightarrow>
                (case extractTitleFromXhtml doc of
                   None \<Rightarrow> ch
                 | Some t \<Rightarrow> ch\<lparr>title := t\<rparr>)))" for ch
    using extractTitle_acceptable
    by (fastforce simp: preloadChapter_try_def split: option.splits sum.splits)
  from placeholders nav len2 guard z2 show ?thesis
    by (simp add: tried)
qed

text \<open>
  The small book satisfies the hypotheses of the amended C2.  Its first chapter has no
  navigation entry and takes the heading of its document; its second chapter is titled by
  navigation, and its callback asks the archive for nothing.
\<close>

theorem C2_title_tiers_witness:
  "parseContentOpf ex_located = (None, ex_parsed) \<and> zipfile ex_located = Some ex_archive \<and>
   truthy (ncxPath ex_parsed) \<and> snd (parseNcx ex_parsed) = ex_titled \<and>
   map title (chapters ex_parsed) = [defaultTitle 0, defaultTitle 1] \<and>
   title (chapters ex_titled ! 0) = defaultTitle 0 \<and>
   title (chapters (snd (preloadChapterTitles ex_titled)) ! 0) = js ''Opening'' \<and>
   title (chapters ex_titled ! 1) = js ''Two'' \<and>
   preloadFrom (zipfile ex_titled) 0 (chapters ex_titled) ! 1 = ([], chapters ex_titled ! 1) \<and>
   chapters (snd (preloadChapterTitles ex_titled)) ! 1 = chapters ex_titled ! 1"
proof -
  have l: "zipfile ex_located = Some ex_archive"
    by (simp add: ex_located_def)
  have tr: "truthy (ncxPath ex_parsed)"
    by (simp add: ex_parsed_def js_def)
  have n: "ex_titled = (if truthy (ncxPath ex_parsed) then snd (parseNcx ex_parsed) else ex_parsed)"
    by (simp add: tr ex_nav)
  have pk: "ex_archive (toString (contentOpfPath ex_located)) = Some (entryOf [] ex_package)"
    "xml (entryOf [] ex_package) = Inr ex_package"
    by (simp_all add: ex_located_def ex_archive_entries entryOf_reads)
  have items: "itemById ex_package other (Some (js ''c1'')) \<noteq> Inr None"
    "itemById ex_package other (Some (js ''c2'')) \<noteq> Inr None"
    "itemById ex_package other (Some (js ''gone'')) = Inr None" for other
    by (simp_all add: itemById_def cssPlain_def ex_package_def ex_item_c1_def query_eval js_def)
  have nv: "ncxPath ex_parsed = Some (js ''OEBPS/toc.ncx'')" "js ''OEBPS/toc.ncx'' \<noteq> []"
    "ex_archive (js ''OEBPS/toc.ncx'') = Some (entryOf [] ex_ncx)" "xml (entryOf [] ex_ncx) = Inr ex_ncx"
    by (simp_all add: ex_archive_entries entryOf_reads)
       (simp_all add: ex_parsed_def js_def)
  have t: "length (chapters ex_parsed) = 2"
    "title (chapters ex_parsed ! 0) = defaultTitle 0" "title (chapters ex_parsed ! 1) = defaultTitle 1"
    "src (chapters ex_parsed ! 0) = js ''ch1.xhtml''" "src (chapters ex_parsed ! 1) = js ''text/ch2.xhtml''"
    "path (chapters ex_titled ! 0) = js ''OEBPS/ch1.xhtml''"
    by (simp_all add: ex_parsed_def ex_titled_def)
  have m: "map_of (navPointLoop (xpathNavPoints ex_ncx)) (js ''ch1.xhtml'') = None"
    "map_of (navPointLoop (xpathNavPoints ex_ncx)) (js ''text/ch2.xhtml'') = Some (js ''Two'')"
    "js ''Two'' \<noteq> defaultTitle 1"
    by (simp_all add: ex_navPoints ex_default_titles js_def)
  have x: "ex_archive (js ''OEBPS/ch1.xhtml'') = Some (entryOf [1] ex_ch1)"
    "html (entryOf [1] ex_ch1) = Inr ex_ch1" "extractTitleFromXhtml ex_ch1 = Some (js ''Opening'')"
    by (simp_all add: ex_archive_entries entryOf_reads ex_extract)
  note inst = C2_title_tiers [OF ex_parse l n refl, of "entryOf [] ex_package" ex_package
      "js ''OEBPS/toc.ncx''" "entryOf [] ex_ncx" ex_ncx]
  from inst pk ex_spine items
  have a: "map title (chapters ex_parsed) = [defaultTitle 0, defaultTitle 1]"
    by (simp add: enumerate_eq_zip)
  from inst nv t m
  have b: "title (chapters ex_titled ! 0) = defaultTitle 0" "title (chapters ex_titled ! 1) = js ''Two''"
    by simp_all
  from inst t b m x
  have c: "title (chapters (snd (preloadChapterTitles ex_titled)) ! 0) = js ''Opening''"
    "preloadFrom (zipfile ex_titled) 0 (chapters ex_titled) ! 1 = ([], chapters ex_titled ! 1)"
    "chapters (snd (preloadChapterTitles ex_titled)) ! 1 = chapters ex_titled ! 1"
    by simp_all
  from ex_parse l tr ex_nav a b c show ?thesis by simp
qed

text \<open>
  C3.  A match that is too short falls through to the next selector.  On a document
  with a one-character \<open>h1\<close> and an \<open>h3\<close>, \<open>extractTitleFromXhtml\<close> of
  \<^verbatim>\<open>EpubExtractor1.2.js\<close> returns nothing, since its \<open>return\<close> ends the loop at the \<open>h1\<close>;
  the loop of \<open>t\<close> in the compact extractor goes on and finds the \<open>h3\<close> text.
\<close>

theorem C3_first_match_ends_extraction:
  "extractTitleFromXhtml ex3_doc = None \<and> t_loop titleSelectors ex3_doc = Some (js ''Intro'')"
  by (simp add: extractTitleFromXhtml_def titleSelectors_def ex3_doc_def query_eval string_eval)

text \<open>
  C4.  A spine entry without matching manifest item is dropped, and the chapter count is the
  number of spine entries minus the unresolvable ones.  The only spine entry of the sample
  package has no idref, so no entry is resolvable and the claim gives no chapter; the
  lookup \<open>`item[id="${idRef}"]`\<close> turns the missing idref into the text \<open>null\<close>, finds the
  manifest item of that identifier, and \<open>init\<close> ends with one chapter.
\<close>

theorem C4_missing_idref_finds_item_null:
  "spineIdRefs ex4_package = [None] \<and>
   spec_resolvable ex4_package None = False \<and>
   filter (spec_resolvable ex4_package) (spineIdRefs ex4_package) = [] \<and>
   init ex4_new = (None, ex4_ready) \<and>
   fst (getChapterCount ex4_ready) = Inr 1 \<and>
   map chapter_id (chapters ex4_ready) = [None]"
  by (simp add: ex4_spine ex4_init spec_resolvable_def getChapterCount_def ex4_ready_def)

text \<open>
  C5.  A navigation entry without referenced path assigns nothing.  The only
  navigation point of the sample document has a \<open>content\<close> element without \<open>src\<close>; \<open>p\<close> of
  the compact extractor files its label under the property \<open>'null'\<close> and gives it to the
  chapter whose href is \<open>null\<close>, while \<open>parseNcx\<close> of \<^verbatim>\<open>EpubExtractor1.2.js\<close> skips the
  entry and leaves the chapter as it is.
\<close>

theorem C5_missing_src_titles_null_href:
  "xpathNavPoints ex5_ncx = [ex5_navPoint] \<and> navPointSrc ex5_navPoint = None \<and>
   map title (p_navTitles ex5_ncx [ex5_chapter]) = [js ''Intro''] \<and>
   map (matchNav (navPointLoop (xpathNavPoints ex5_ncx))) [ex5_chapter] = [ex5_chapter]"
proof -
  have 1: "xpathNavPoints ex5_ncx = [ex5_navPoint]"
    by (simp add: ex5_ncx_def ex5_navPoint_def xpathNavPoints_def js_def)
  have 2: "navPointSrc ex5_navPoint = None"
    "xpathContent ex5_navPoint = Some (Element ncxNs (js ''content'') [] [])"
    "xpathLabelText ex5_navPoint = Some (Element ncxNs (js ''text'') [] [Text (js ''Intro'')])"
    by (simp_all add: ex5_navPoint_def xpath_eval js_def)
  have 3: "cleanText (js ''Intro'') = js ''Intro''" "js ''Intro'' \<noteq> []"
    by (simp_all add: string_eval)
  show ?thesis
    by (simp add: 1 2 3 p_navTitles_def p_title_def matchNav_def ex5_chapter_def)
qed

text \<open>
  C6, as stated, fails on an archive whose container descriptor has a \<open>rootfile\<close>
  element without \<open>full-path\<close>: the locator returns \<open>null\<close> although the first fallback path
  exists.
\<close>

theorem C6_missing_full_path_stops_probing:
  "findContentOpf ex6_archive = Inr None \<and> spec_locate ex6_archive = Some (js ''OEBPS/content.opf'')"
  by (simp add: findContentOpf_def spec_locate_def ex6_archive_def ex6_container_def entryOf_def
      possiblePaths_def query_eval js_def)

lemma probePaths_find: "probePaths z ps = find (\<lambda>p. z p \<noteq> None) ps"
  by (induction ps) auto

text \<open>
  C6, amended.  When the container descriptor has a \<open>rootfile\<close> element, the locator
  returns its \<open>full-path\<close> attribute, \<open>null\<close> if the attribute is absent, without probing.
  When the descriptor is absent or has no \<open>rootfile\<close> element, the locator returns the first
  of \<open>OEBPS/content.opf\<close>, \<open>content.opf\<close>, \<open>EPUB/content.opf\<close> that exists.  When the
  locator returns \<open>null\<close> or the empty string, \<open>init\<close> throws and the object stays
  uninitialized.
\<close>

theorem C6_locator:
  "(z (js ''META-INF/container.xml'') = Some containerFile \<and> xml containerFile = Inr xmlDoc \<and>
      querySelector (TypeSel (js ''rootfile'')) xmlDoc = Some rootfile \<longrightarrow>
        findContentOpf z = Inr (getAttribute rootfile (js ''full-path''))) \<and>
   (z (js ''META-INF/container.xml'') = None \<or>
      (z (js ''META-INF/container.xml'') = Some containerFile \<and> xml containerFile = Inr xmlDoc \<and>
       querySelector (TypeSel (js ''rootfile'')) xmlDoc = None) \<longrightarrow>
        findContentOpf z =
          Inr (find (\<lambda>p. z p \<noteq> None)
                 [js ''OEBPS/content.opf'', js ''content.opf'', js ''EPUB/content.opf''])) \<and>
   (\<not> initialized this \<and> epubFile this = Inr z \<and> findContentOpf z = Inr p \<and> \<not> truthy p \<longrightarrow>
        fst (init this) = Some NoContentOpf \<and> \<not> initialized (snd (init this)))"
  by (auto simp: findContentOpf_def probePaths_find possiblePaths_def init_def)

text \<open>
  The three cases of the amended C6 on sample archives.
\<close>

theorem C6_locator_witness:
  "findContentOpf ex_archive = Inr (Some (js ''OEBPS/content.opf'')) \<and>
   ex6b_archive (js ''META-INF/container.xml'') = None \<and>
   findContentOpf ex6b_archive = Inr (Some (js ''content.opf'')) \<and>
   findContentOpf ex6_archive = Inr None \<and>
   fst (init (new_EpubExtractor (Inr ex6_archive))) = Some NoContentOpf"
proof -
  have a: "ex_archive (js ''META-INF/container.xml'') = Some (entryOf [] ex_container) \<and>
        xml (entryOf [] ex_container) = Inr ex_container \<and>
        querySelector (TypeSel (js ''rootfile'')) ex_container =
          Some (Element containerNs (js ''rootfile'') [(js ''full-path'', js ''OEBPS/content.opf'')] [])"
    by (simp add: ex_archive_entries entryOf_reads ex_rootfile)
  have b: "ex6b_archive (js ''META-INF/container.xml'') = None"
    by (simp add: ex6b_archive_def js_def)
  have c: "\<not> initialized (new_EpubExtractor (Inr ex6_archive)) \<and>
        epubFile (new_EpubExtractor (Inr ex6_archive)) = Inr ex6_archive \<and>
        findContentOpf ex6_archive = Inr None \<and> \<not> truthy None"
    by (simp add: new_EpubExtractor_def findContentOpf_def ex6_archive_def ex6_container_def entryOf_def
        query_eval js_def)
  have 1: "findContentOpf ex_archive = Inr (Some (js ''OEBPS/content.opf''))"
    using a C6_locator [of ex_archive "entryOf [] ex_container" ex_container
        "Element containerNs (js ''rootfile'') [(js ''full-path'', js ''OEBPS/content.opf'')] []"]
    by (simp add: js_def)
  have 2: "findContentOpf ex6b_archive = Inr (Some (js ''content.opf''))"
    using b C6_locator [of ex6b_archive]
    by (simp add: ex6b_archive_def js_def)
  have 3: "fst (init (new_EpubExtractor (Inr ex6_archive))) = Some NoContentOpf"
    using c C6_locator [of ex6_archive _ _ _ "new_EpubExtractor (Inr ex6_archive)" None]
    by simp
  from 1 2 3 b c show ?thesis by simp
qed

text \<open>
  C7.  With an archive loaded, \<open>parseNcx\<close> never throws; when the NCX entry is missing or
  reading it throws, it leaves the object, and so every title, unchanged, as navigation
  without any entry would; and once the package document has been parsed \<open>init\<close> completes
  whatever the navigation document is.
\<close>

theorem C7_navigation_never_raises:
  "(zipfile this = Some z \<longrightarrow> fst (parseNcx this) = None) \<and>
   (zipfile this = Some z \<and> ncxPath this = Some p \<and>
      (z p = None \<or> (z p = Some ncxFile \<and> xml ncxFile = Inl e)) \<longrightarrow>
        parseNcx this = (None, this) \<and> map (matchNav []) (chapters this) = chapters this) \<and>
   (\<not> initialized this \<and> epubFile this = Inr z \<and> findContentOpf z = Inr q \<and> truthy q \<and>
      fst (parseContentOpf (this\<lparr>zipfile := Some z, contentOpfPath := q\<rparr>)) = None \<longrightarrow>
        fst (init this) = None \<and> initialized (snd (init this)))"
proof (intro conjI impI)
  assume "zipfile this = Some z"
  then show "fst (parseNcx this) = None" by (rule parseNcx_no_throw)
next
  assume "zipfile this = Some z \<and> ncxPath this = Some p \<and>
      (z p = None \<or> (z p = Some ncxFile \<and> xml ncxFile = Inl e))"
  then show "parseNcx this = (None, this)"
    by (auto simp: parseNcx_def parseNcx_try_def)
next
  show "map (matchNav []) (chapters this) = chapters this" by (rule matchNav_empty)
next
  assume h: "\<not> initialized this \<and> epubFile this = Inr z \<and> findContentOpf z = Inr q \<and> truthy q \<and>
      fst (parseContentOpf (this\<lparr>zipfile := Some z, contentOpfPath := q\<rparr>)) = None"
  obtain this1 where p: "parseContentOpf (this\<lparr>zipfile := Some z, contentOpfPath := q\<rparr>) = (None, this1)"
    using h by (cases "parseContentOpf (this\<lparr>zipfile := Some z, contentOpfPath := q\<rparr>)") simp
  have "zipfile this1 = Some z"
    using parseContentOpf_zipfile [of "this\<lparr>zipfile := Some z, contentOpfPath := q\<rparr>"] p by simp
  then have "fst (parseNcx this1) = None" by (rule parseNcx_no_throw)
  then obtain this2 where n: "parseNcx this1 = (None, this2)"
    by (cases "parseNcx this1") simp
  from h p n show "fst (init this) = None" "initialized (snd (init this))"
    by (simp_all add: init_def)
qed

lemma ex7_entries:
  "ex7_archive (js ''OEBPS/toc.ncx'') = Some unreadable"
  "ex7b_archive (js ''OEBPS/toc.ncx'') = None"
  by (simp_all add: ex7_archive_def ex7b_archive_def)

lemma ex7_find: "findContentOpf ex7_archive = Inr (Some (js ''OEBPS/content.opf''))"
proof -
  have "js ''META-INF/container.xml'' \<noteq> js ''OEBPS/toc.ncx''" by (simp add: js_def)
  then have "ex7_archive (js ''META-INF/container.xml'') = Some (entryOf [] ex_container)"
    by (simp add: ex7_archive_def ex_archive_entries)
  then show ?thesis
    by (simp add: findContentOpf_def entryOf_reads ex_rootfile)
qed

lemma ex7_parse:
  "parseContentOpf ((new_EpubExtractor (Inr ex7_archive))
      \<lparr>zipfile := Some ex7_archive, contentOpfPath := Some (js ''OEBPS/content.opf'')\<rparr>) = (None, ex7_parsed)"
proof -
  have "js ''OEBPS/content.opf'' \<noteq> js ''OEBPS/toc.ncx''" by (simp add: js_def)
  then have e: "ex7_archive (js ''OEBPS/content.opf'') = Some (entryOf [] ex_package)"
    by (simp add: ex7_archive_def ex_archive_entries)
  show ?thesis
    by (simp add: new_EpubExtractor_def ex7_parsed_def ex_parsed_def parse_eval e [unfolded js_def, simplified]
        entryOf_reads ex_package_def ex_item_c1_def query_eval path_eval js_def defaultTitle_def decimal.simps)
qed

text \<open>
  The hypotheses of C7 on the small book, with an unreadable and with a missing NCX entry.
\<close>

theorem C7_navigation_never_raises_witness:
  "zipfile ex7_parsed = Some ex7_archive \<and> ncxPath ex7_parsed = Some (js ''OEBPS/toc.ncx'') \<and>
   ex7_archive (js ''OEBPS/toc.ncx'') = Some unreadable \<and> xml unreadable = Inl ReadError \<and>
   parseNcx ex7_parsed = (None, ex7_parsed) \<and>
   zipfile ex7b_parsed = Some ex7b_archive \<and> ncxPath ex7b_parsed = Some (js ''OEBPS/toc.ncx'') \<and>
   ex7b_archive (js ''OEBPS/toc.ncx'') = None \<and>
   parseNcx ex7b_parsed = (None, ex7b_parsed) \<and>
   fst (init (new_EpubExtractor (Inr ex7_archive))) = None \<and>
   initialized (snd (init (new_EpubExtractor (Inr ex7_archive))))"
proof -
  have a: "zipfile ex7_parsed = Some ex7_archive" "ncxPath ex7_parsed = Some (js ''OEBPS/toc.ncx'')"
    "zipfile ex7b_parsed = Some ex7b_archive" "ncxPath ex7b_parsed = Some (js ''OEBPS/toc.ncx'')"
    by (simp_all add: ex7_parsed_def ex7b_parsed_def ex_parsed_def)
  have b: "\<not> initialized (new_EpubExtractor (Inr ex7_archive))"
    "epubFile (new_EpubExtractor (Inr ex7_archive)) = Inr ex7_archive"
    "truthy (Some (js ''OEBPS/content.opf''))"
    by (simp_all add: new_EpubExtractor_def js_def)
  have 1: "parseNcx ex7_parsed = (None, ex7_parsed)"
    using C7_navigation_never_raises [of ex7_parsed ex7_archive "js ''OEBPS/toc.ncx''" unreadable ReadError]
      a ex7_entries unreadable_reads
    by simp
  have 2: "parseNcx ex7b_parsed = (None, ex7b_parsed)"
    using C7_navigation_never_raises [of ex7b_parsed ex7b_archive "js ''OEBPS/toc.ncx''"] a ex7_entries
    by simp
  have 3: "fst (init (new_EpubExtractor (Inr ex7_archive))) = None \<and>
      initialized (snd (init (new_EpubExtractor (Inr ex7_archive))))"
    using C7_navigation_never_raises [of "new_EpubExtractor (Inr ex7_archive)" ex7_archive _ _ _
        "Some (js ''OEBPS/content.opf'')"] b ex7_find ex7_parse
    by simp
  from a ex7_entries unreadable_reads 1 2 3 show ?thesis by simp
qed

text \<open>
  C8, as stated, fails where the entry of the chapter cannot be read: after \<open>init\<close> of
  such a book the index is in range and the archive has the entry, yet \<open>getChapterXhtml\<close>
  returns no bytes but throws the error of the rejected read on.
\<close>

theorem C8_unreadable_entry_throws:
  "init (new_EpubExtractor (Inr ex8b_archive)) = (None, ex8b_ready) \<and>
   initialized ex8b_ready \<and> length (chapters ex8b_ready) = 2 \<and>
   path (chapters ex8b_ready ! 0) = js ''OEBPS/ch1.xhtml'' \<and>
   zipfile ex8b_ready = Some ex8b_archive \<and>
   ex8b_archive (js ''OEBPS/ch1.xhtml'') = Some unreadable \<and>
   arraybuffer unreadable = None \<and>
   fst (getChapterXhtml ex8b_ready (Finite 0)) = Inl ReadError"
proof -
  have a: "initialized ex8b_ready" "length (chapters ex8b_ready) = 2"
    "path (chapters ex8b_ready ! 0) = js ''OEBPS/ch1.xhtml''" "zipfile ex8b_ready = Some ex8b_archive"
    "chapters ex8b_ready \<noteq> []"
    by (simp_all add: ex8b_ready_def ex8b_titled_def ex_titled_def)
  have "arrayRead (chapters ex8b_ready) (Finite 0) = Some (chapters ex8b_ready ! 0)"
    using a(2) by simp
  with a have "fst (getChapterXhtml ex8b_ready (Finite 0)) = Inl ReadError"
    by (simp add: getChapterXhtml_def ex8b_entries unreadable_reads)
  with a ex8b_init ex8b_entries unreadable_reads show ?thesis by simp
qed

text \<open>
  C8, amended.  In the ready state and for an integer index, \<open>getChapterXhtml\<close> throws the
  index error exactly for an index outside \<open>[0, chapters.length)\<close>, throws the chapter-file
  error exactly for an index in range whose path has no archive entry, and otherwise
  returns the bytes of the entry as a blob of type \<open>application/xhtml+xml\<close> when the read
  of the entry completes, and throws the error of the read when it is rejected.
\<close>

theorem C8_chapter_document:
  assumes "initialized this" and "zipfile this = Some z"
  shows "((\<exists>n. fst (getChapterXhtml this (Finite (of_int k))) = Inl (InvalidChapterIndex n)) \<longleftrightarrow>
            (k < 0 \<or> int (length (chapters this)) \<le> k)) \<and>
     ((\<exists>p. fst (getChapterXhtml this (Finite (of_int k))) = Inl (ChapterFileNotFound p)) \<longleftrightarrow>
            (0 \<le> k \<and> k < int (length (chapters this)) \<and> z (path (chapters this ! nat k)) = None)) \<and>
     (0 \<le> k \<and> k < int (length (chapters this)) \<and> z (path (chapters this ! nat k)) = Some f \<longrightarrow>
            fst (getChapterXhtml this (Finite (of_int k))) =
              (case arraybuffer f of
                 None \<Rightarrow> Inl ReadError
               | Some content \<Rightarrow>
                   Inr \<lparr>blobParts = [content], blobType = js ''application/xhtml+xml''\<rparr>))"
proof (cases "k < 0 \<or> int (length (chapters this)) \<le> k")
  case True
  with assms show ?thesis
    by (auto simp: getChapterXhtml_def belowZero_int atLeastLength_int simp del: belowZero.simps atLeastLength.simps)
next
  case False
  then have "arrayRead (chapters this) (Finite (of_int k)) = Some (chapters this ! nat k)"
    by (intro arrayRead_int) simp_all
  with False assms show ?thesis
    by (auto simp: getChapterXhtml_def belowZero_int atLeastLength_int
        simp del: belowZero.simps atLeastLength.simps arrayRead.simps split: option.splits)
qed

text \<open>
  The hypotheses of the amended C8 on the small book after its \<open>init\<close>: a document fetched,
  an index out of range, a missing entry and an entry that cannot be read.
\<close>

theorem C8_chapter_document_witness:
  "init ex_new = (None, ex_ready) \<and> initialized ex_ready \<and> zipfile ex_ready = Some ex_archive \<and>
   init (new_EpubExtractor (Inr ex8_archive)) = (None, ex8_ready) \<and>
   initialized ex8_ready \<and> zipfile ex8_ready = Some ex8_archive \<and>
   init (new_EpubExtractor (Inr ex8b_archive)) = (None, ex8b_ready) \<and>
   initialized ex8b_ready \<and> zipfile ex8b_ready = Some ex8b_archive \<and>
   fst (getChapterXhtml ex_ready (Finite (of_int 0))) =
     Inr \<lparr>blobParts = [the (arraybuffer (entryOf [1] ex_ch1))], blobType = js ''application/xhtml+xml''\<rparr> \<and>
   (\<exists>n. fst (getChapterXhtml ex_ready (Finite (of_int 2))) = Inl (InvalidChapterIndex n)) \<and>
   (\<exists>p. fst (getChapterXhtml ex8_ready (Finite (of_int 0))) = Inl (ChapterFileNotFound p)) \<and>
   fst (getChapterXhtml ex8b_ready (Finite (of_int 0))) = Inl ReadError"
proof -
  have a: "initialized ex_ready" "zipfile ex_ready = Some ex_archive" "length (chapters ex_ready) = 2"
    "path (chapters ex_ready ! nat 0) = js ''OEBPS/ch1.xhtml''"
    by (simp_all add: ex_ready_def)
  have b: "initialized ex8_ready" "zipfile ex8_ready = Some ex8_archive"
    "length (chapters ex8_ready) = 2" "path (chapters ex8_ready ! nat 0) = js ''OEBPS/ch1.xhtml''"
    by (simp_all add: ex8_ready_def ex8_titled_def ex_titled_def)
  have c: "initialized ex8b_ready" "zipfile ex8b_ready = Some ex8b_archive"
    "length (chapters ex8b_ready) = 2" "path (chapters ex8b_ready ! nat 0) = js ''OEBPS/ch1.xhtml''"
    by (simp_all add: ex8b_ready_def ex8b_titled_def ex_titled_def)
  have 1: "fst (getChapterXhtml ex_ready (Finite (of_int 0))) =
     Inr \<lparr>blobParts = [the (arraybuffer (entryOf [1] ex_ch1))], blobType = js ''application/xhtml+xml''\<rparr>"
    using C8_chapter_document [OF a(1,2), of 0 "entryOf [1] ex_ch1"] a ex_archive_entries
    by (simp add: entryOf_reads)
  have 2: "\<exists>n. fst (getChapterXhtml ex_ready (Finite (of_int 2))) = Inl (InvalidChapterIndex n)"
    using C8_chapter_document [OF a(1,2), of 2] a by simp
  have 3: "\<exists>p. fst (getChapterXhtml ex8_ready (Finite (of_int 0))) = Inl (ChapterFileNotFound p)"
    using C8_chapter_document [OF b(1,2), of 0] b ex8_entries by simp
  have 4: "fst (getChapterXhtml ex8b_ready (Finite (of_int 0))) = Inl ReadError"
    using C8_chapter_document [OF c(1,2), of 0 unreadable] c ex8b_entries
    by (simp add: unreadable_reads)
  from a b c ex_init ex8_init ex8b_init 1 2 3 4 show ?thesis by simp
qed

text \<open>
  C9.  A query before initialization throws.  \<open>getChapterCount\<close> of
  \<^verbatim>\<open>EpubExtractor.js\<close> returns \<open>0\<close> on a new object; \<open>getChapterCount\<close> of
  \<^verbatim>\<open>EpubExtractor1.2.js\<close> throws.
\<close>

theorem C9_count_before_init:
  "fst (getChapterCount_v1 (new_EpubExtractor f)) = Inr 0 \<and>
   fst (getChapterCount (new_EpubExtractor f)) = Inl NotInitialized"
  by (simp add: getChapterCount_v1_def getChapterCount_def new_EpubExtractor_def)

text \<open>
  C10.  On an initialized object \<open>init\<close> returns at once and changes nothing, and no
  query changes the object.
\<close>

theorem C10_ready_is_frozen:
  "initialized this \<Longrightarrow>
     init this = (None, this) \<and>
     snd (getChapterCount this) = this \<and>
     snd (getChapterTitles this) = this \<and>
     snd (getChapterTitle this i) = this \<and>
     snd (getChapterXhtml this i) = this"
  by (simp add: init_def getChapterCount_def getChapterTitles_def getChapterTitle_def getChapterXhtml_def
      split: option.splits)

text \<open>
  The hypothesis of C10 on the small book after its \<open>init\<close>.
\<close>

theorem C10_ready_is_frozen_witness:
  "init ex_new = (None, ex_ready) \<and> initialized ex_ready \<and> init ex_ready = (None, ex_ready) \<and>
   snd (getChapterXhtml ex_ready (Finite 0)) = ex_ready"
proof -
  have a: "initialized ex_ready" by (simp add: ex_ready_def)
  from C10_ready_is_frozen [OF a, of "Finite 0"] a ex_init show ?thesis by simp
qed

end
